theory Spec2Isabelle
  imports Complex_Main "HOL-Library.Sublist"
begin

section \<open>Strings\<close>

text \<open>
  A JavaScript string is a sequence of UTF-16 code units; a code unit is modelled as a
  natural number. Literals of the source are written \<open>js ''...''\<close> for their ASCII part,
  with the code units of the Turkish letters spelled out.
\<close>

type_synonym jsstring = "nat list"

definition js :: "string \<Rightarrow> jsstring" where
  "js s = map of_char s"

text \<open>
  \<open>is_space\<close> is the class \<open>\s\<close> of a regular expression, which is also the set of
  code units \<open>String.prototype.trim\<close> strips: WhiteSpace (TAB, VT, FF, SP, NBSP, ZWNBSP
  and the category Zs) and LineTerminator (LF, CR, LS, PS).
\<close>

definition is_space :: "nat \<Rightarrow> bool" where
  "is_space c \<longleftrightarrow>
     (9 \<le> c \<and> c \<le> 13) \<or> c = 32 \<or> c = 160 \<or> c = 5760 \<or> (8192 \<le> c \<and> c \<le> 8202) \<or>
     c = 8232 \<or> c = 8233 \<or> c = 8239 \<or> c = 8287 \<or> c = 12288 \<or> c = 65279"

definition non_space :: "nat \<Rightarrow> bool" where
  "non_space c \<longleftrightarrow> \<not> is_space c"

text \<open>\<open>\d\<close>: the ASCII digits.\<close>

definition is_digit :: "nat \<Rightarrow> bool" where
  "is_digit c \<longleftrightarrow> 48 \<le> c \<and> c \<le> 57"

text \<open>\<open>[a-z]\<close> under the flag \<open>i\<close> (no flag \<open>u\<close>): the ASCII letters of either case.\<close>

definition is_ascii_letter :: "nat \<Rightarrow> bool" where
  "is_ascii_letter c \<longleftrightarrow> (65 \<le> c \<and> c \<le> 90) \<or> (97 \<le> c \<and> c \<le> 122)"

definition trim :: "jsstring \<Rightarrow> jsstring" where
  "trim s = rev (dropWhile is_space (rev (dropWhile is_space s)))"

text \<open>
  The lower-case mapping of Unicode on Basic Latin, Latin-1 Supplement and Latin
  Extended-A, the alphabets of the two languages of the synonym table (U+0130 becomes
  the two units U+0069 U+0307). \<open>in_table\<close> holds of the code units the table covers:
  those below U+0180, and U+0307, which the mapping produces and leaves alone. On a
  string of such units lower-casing works unit by unit: \<open>latin_lower\<close>.
\<close>

definition lower_unit :: "nat \<Rightarrow> jsstring" where
  "lower_unit c =
     (if 65 \<le> c \<and> c \<le> 90 then [c + 32]
      else if 192 \<le> c \<and> c \<le> 222 \<and> c \<noteq> 215 then [c + 32]
      else if c = 304 then [105, 775]
      else if c = 376 then [255]
      else if ((256 \<le> c \<and> c \<le> 303) \<or> (306 \<le> c \<and> c \<le> 311) \<or> (330 \<le> c \<and> c \<le> 375))
              \<and> even c then [c + 1]
      else if ((313 \<le> c \<and> c \<le> 328) \<or> (377 \<le> c \<and> c \<le> 382)) \<and> odd c then [c + 1]
      else [c])"

definition in_table :: "nat \<Rightarrow> bool" where
  "in_table c \<longleftrightarrow> c < 384 \<or> c = 775"

definition latin_lower :: "jsstring \<Rightarrow> jsstring" where
  "latin_lower s = concat (map lower_unit s)"

text \<open>\<open>Array.prototype.join\<close>.\<close>

fun join :: "jsstring \<Rightarrow> jsstring list \<Rightarrow> jsstring" where
  "join sep [] = []"
| "join sep [x] = x"
| "join sep (x # y # ys) = x @ sep @ join sep (y # ys)"

text \<open>
  \<open>s.split(/\s+/)\<close>: the pieces of \<open>s\<close> between the maximal runs of white space. A run
  at either end of \<open>s\<close> leaves an empty piece there, and the empty string splits into
  one empty piece, as in JavaScript.
\<close>

function split_ws :: "jsstring \<Rightarrow> jsstring list" where
  "split_ws s =
     (let piece = takeWhile non_space s; rest = dropWhile non_space s
      in if rest = [] then [piece] else piece # split_ws (dropWhile is_space rest))"
  by pat_completeness auto
termination
proof (relation "measure length")
  show "wf (measure length)" by simp
next
  fix s :: jsstring and piece rest :: jsstring
  assume r: "rest = dropWhile non_space s" and ne: "rest \<noteq> []"
  from ne obtain c cs where rc: "rest = c # cs" by (cases rest) auto
  from r rc have "dropWhile non_space s = c # cs" by simp
  then have "\<not> non_space c" by (simp add: dropWhile_eq_Cons_conv)
  then have sp: "is_space c" by (simp add: non_space_def)
  have "length (dropWhile is_space rest) \<le> length cs"
    using sp rc by (simp add: length_dropWhile_le)
  also have "\<dots> < length rest" using rc by simp
  also have "\<dots> \<le> length s" using r by (simp add: length_dropWhile_le)
  finally show "(dropWhile is_space rest, s) \<in> measure length" by simp
qed

declare split_ws.simps [simp del]

text \<open>\<open>s.replace(/P+/g, r)\<close>: every maximal run of code units in the class becomes \<open>r\<close>.\<close>

function replace_runs :: "(nat \<Rightarrow> bool) \<Rightarrow> jsstring \<Rightarrow> jsstring \<Rightarrow> jsstring" where
  "replace_runs P r [] = []"
| "replace_runs P r (c # cs) =
     (if P c then r @ replace_runs P r (dropWhile P cs) else c # replace_runs P r cs)"
  by pat_completeness auto
termination
  by (relation "measure (\<lambda>(P, r, s). length s)")
     (auto simp: length_dropWhile_le less_Suc_eq_le)

text \<open>\<open>s.startsWith(p)\<close> and \<open>s.includes(p)\<close>.\<close>

definition startsWith :: "jsstring \<Rightarrow> jsstring \<Rightarrow> bool" where
  "startsWith s p = prefix p s"

definition str_includes :: "jsstring \<Rightarrow> jsstring \<Rightarrow> bool" where
  "str_includes s p = sublist p s"

section \<open>Elements of the host document\<close>

text \<open>
  What the engine reads of an element: its tag name, its attributes, its live value, the
  options of a selector, the text of the label bound to its id
  (\<open>document.querySelector('label[for=...]')\<close>), the text of the label that wraps it
  (\<open>el.closest("label")\<close>), the label-like elements of its container
  (\<open>el.closest("div, section, form, fieldset") || el.parentElement\<close>, \<open>None\<close> when
  there is none) and its bounding rectangle. \<open>el_dispatched\<close> records the events
  dispatched on the element, oldest first. Coordinates are real numbers.
\<close>

record rect =
  rect_top :: real
  rect_bottom :: real
  rect_left :: real
  rect_right :: real

record label_el =
  l_innerText :: "jsstring option"
  l_rect :: rect

record option_el =
  opt_value :: jsstring
  opt_textContent :: jsstring

record element =
  el_tagName :: "jsstring option"
  el_attrs :: "string \<rightharpoonup> jsstring"
  el_value :: jsstring
  el_options :: "option_el list"
  el_label_for :: "jsstring option"
  el_parent_label :: "jsstring option"
  el_container :: "label_el list option"
  el_rect :: rect
  el_dispatched :: "jsstring list"

section \<open>The platform\<close>

text \<open>
  The source calls three parts of its host that the repository does not contain. They
  are parameters of the model, and every theorem holds for every platform unless it
  names a hypothesis on it.
  \<^item> \<open>pf_toLowerCase\<close> is \<open>String.prototype.toLowerCase\<close>. It is consulted for
    strings that hold a code unit outside the table above; on the others the table is
    the whole of Unicode's mapping.
  \<^item> \<open>pf_letter_or_number\<close> is the class \<open>[\p{L}\p{N}]\<close> of a regular expression with
    the flag \<open>u\<close>, consulted for code points from U+0180 on.
  \<^item> \<open>pf_set_value\<close> is the setter of the property \<open>value\<close> of an element, given a
    string: \<open>Inr\<close> the value the element holds afterwards (a date input keeps only a
    valid date, a text input drops line breaks), or \<open>Inl\<close> the description of the
    exception the setter throws (a progress bar refuses a string that is not a number).
\<close>

record platform =
  pf_toLowerCase :: "jsstring \<Rightarrow> jsstring"
  pf_letter_or_number :: "nat \<Rightarrow> bool"
  pf_set_value :: "element \<Rightarrow> jsstring \<Rightarrow> jsstring + jsstring"

definition toLowerCase :: "platform \<Rightarrow> jsstring \<Rightarrow> jsstring" where
  "toLowerCase pf s = (if list_all in_table s then latin_lower s else pf_toLowerCase pf s)"

section \<open>Normalizer\<close>

text \<open>
  \<open>safeStr(v)\<close>: \<open>null\<close> and \<open>undefined\<close> (\<open>None\<close>) give the empty string, any other
  value its string, trimmed. Values are modelled by the string \<open>String(v)\<close>.
\<close>

definition safeStr :: "jsstring option \<Rightarrow> jsstring" where
  "safeStr v = (case v of None \<Rightarrow> [] | Some s \<Rightarrow> trim s)"

definition normalizePhone :: "jsstring option \<Rightarrow> jsstring" where
  "normalizePhone phone =
     (let p = safeStr phone
      in if p = [] then []
         else let plus = startsWith (trim p) (js ''+'');
                  p' = filter is_digit p
              in if plus then js ''+'' @ p' else p')"

text \<open>
  The two tests of \<open>normalizeUrl\<close>. \<open>has_scheme\<close> is \<open>/^https?:\/\//i\<close>.
  \<open>domain_like\<close> is \<open>/^[a-z0-9.-]+\.[a-z]{2,}/i\<close>, written as the automaton of the
  expression: after at least one unit of the class, either a dot followed by two
  letters ends the match, or one more unit of the class is read.
\<close>

definition ascii_lower :: "nat \<Rightarrow> nat" where
  "ascii_lower c = (if 65 \<le> c \<and> c \<le> 90 then c + 32 else c)"

definition has_scheme :: "jsstring \<Rightarrow> bool" where
  "has_scheme s \<longleftrightarrow>
     prefix (js ''http://'') (map ascii_lower s) \<or> prefix (js ''https://'') (map ascii_lower s)"

definition is_domain_unit :: "nat \<Rightarrow> bool" where
  "is_domain_unit c \<longleftrightarrow> is_ascii_letter c \<or> is_digit c \<or> c = 46 \<or> c = 45"

fun two_letters :: "jsstring \<Rightarrow> bool" where
  "two_letters (a # b # _) = (is_ascii_letter a \<and> is_ascii_letter b)"
| "two_letters _ = False"

fun domain_rest :: "jsstring \<Rightarrow> bool" where
  "domain_rest [] = False"
| "domain_rest (d # ds) = ((d = 46 \<and> two_letters ds) \<or> (is_domain_unit d \<and> domain_rest ds))"

fun domain_like :: "jsstring \<Rightarrow> bool" where
  "domain_like [] = False"
| "domain_like (c # cs) = (is_domain_unit c \<and> domain_rest cs)"

definition normalizeUrl :: "jsstring option \<Rightarrow> jsstring" where
  "normalizeUrl url =
     (let u = safeStr url
      in if u = [] then []
         else if \<not> has_scheme u \<and> domain_like u then js ''https://'' @ u
         else u)"

text \<open>
  The raw profile is any object: a map from property names to values, a missing
  property being \<open>undefined\<close>. The canonical profile has the nineteen fields of the
  source.
\<close>

type_synonym raw_profile = "string \<rightharpoonup> jsstring"

record profile =
  firstName :: jsstring
  lastName :: jsstring
  fullName :: jsstring
  email :: jsstring
  phone :: jsstring
  addressLine :: jsstring
  city :: jsstring
  state :: jsstring
  postalCode :: jsstring
  country :: jsstring
  linkedin :: jsstring
  github :: jsstring
  website :: jsstring
  dateOfBirth :: jsstring
  summary :: jsstring
  coverLetter :: jsstring
  graduationYear :: jsstring
  experienceYears :: jsstring
  salaryExpectation :: jsstring

definition truthy :: "jsstring \<Rightarrow> bool" where
  "truthy s \<longleftrightarrow> s \<noteq> []"

text \<open>The object literal that opens \<open>normalizeProfile\<close>.\<close>

definition initial_profile :: "platform \<Rightarrow> raw_profile \<Rightarrow> profile" where
  "initial_profile pf raw =
     \<lparr> firstName = safeStr (raw ''firstName''),
       lastName = safeStr (raw ''lastName''),
       fullName = safeStr (raw ''fullName''),
       email = toLowerCase pf (safeStr (raw ''email'')),
       phone = normalizePhone (raw ''phone''),
       addressLine = safeStr (raw ''addressLine''),
       city = safeStr (raw ''city''),
       state = safeStr (raw ''state''),
       postalCode = safeStr (raw ''postalCode''),
       country = safeStr (raw ''country''),
       linkedin = normalizeUrl (raw ''linkedin''),
       github = normalizeUrl (raw ''github''),
       website = normalizeUrl (raw ''website''),
       dateOfBirth = safeStr (raw ''dateOfBirth''),
       summary = safeStr (raw ''summary''),
       coverLetter = safeStr (raw ''coverLetter''),
       graduationYear = safeStr (raw ''graduationYear''),
       experienceYears = safeStr (raw ''experienceYears''),
       salaryExpectation = safeStr (raw ''salaryExpectation'') \<rparr>"

text \<open>"Derive fullName if missing".\<close>

definition derive_fullName :: "profile \<Rightarrow> profile" where
  "derive_fullName p =
     (if \<not> truthy (fullName p)
      then p\<lparr>fullName := trim (join (js '' '') (filter truthy [firstName p, lastName p]))\<rparr>
      else p)"

text \<open>"Derive first/last if missing but fullName exists".\<close>

definition derive_names :: "profile \<Rightarrow> profile" where
  "derive_names p =
     (if (\<not> truthy (firstName p) \<or> \<not> truthy (lastName p)) \<and> truthy (fullName p)
      then let parts = filter truthy (split_ws (fullName p))
           in if 2 \<le> length parts
              then let p1 = (if \<not> truthy (firstName p) then p\<lparr>firstName := hd parts\<rparr> else p)
                   in (if \<not> truthy (lastName p1)
                       then p1\<lparr>lastName := join (js '' '') (tl parts)\<rparr> else p1)
              else p
      else p)"

definition normalizeProfile :: "platform \<Rightarrow> raw_profile \<Rightarrow> profile" where
  "normalizeProfile pf raw = derive_names (derive_fullName (initial_profile pf raw))"

section \<open>Reading an element\<close>

definition getAttribute :: "element \<Rightarrow> string \<Rightarrow> jsstring option" where
  "getAttribute el name = el_attrs el name"

text \<open>\<open>v || d\<close> for a string or missing \<open>v\<close>.\<close>

definition or_str :: "jsstring option \<Rightarrow> jsstring \<Rightarrow> jsstring" where
  "or_str v d = (case v of None \<Rightarrow> d | Some s \<Rightarrow> if truthy s then s else d)"

definition tag_of :: "platform \<Rightarrow> element \<Rightarrow> jsstring" where
  "tag_of pf el = toLowerCase pf (or_str (el_tagName el) [])"

definition isFillableElement :: "platform \<Rightarrow> element option \<Rightarrow> bool" where
  "isFillableElement pf e =
     (case e of
        None \<Rightarrow> False
      | Some el \<Rightarrow>
          let tag = tag_of pf el
          in if tag = js ''textarea'' \<or> tag = js ''select'' then True
             else if tag \<noteq> js ''input'' then False
             else let type = toLowerCase pf (or_str (getAttribute el ''type'') (js ''text''))
                  in if type = js ''password'' then False
                     else if type = js ''hidden'' then False
                     else if type = js ''file'' then False
                     else if type = js ''submit'' \<or> type = js ''button'' \<or> type = js ''reset''
                       then False
                     else if type = js ''checkbox'' \<or> type = js ''radio'' then False
                     else True)"

section \<open>Signal extraction\<close>

record signal =
  sig_text :: jsstring
  sig_weight :: int
  sig_source :: string

definition add :: "jsstring option \<Rightarrow> int \<Rightarrow> string \<Rightarrow> signal list \<Rightarrow> signal list" where
  "add s w src signals =
     (let t = safeStr s
      in if \<not> truthy t then signals
         else signals @ [\<lparr>sig_text = t, sig_weight = w, sig_source = src\<rparr>])"

record label_candidate =
  cand_text :: jsstring
  cand_dist :: real

text \<open>The body of the \<open>forEach\<close> of \<open>findNearestLabelText\<close>, for one label.\<close>

definition isAbove :: "rect \<Rightarrow> rect \<Rightarrow> bool" where
  "isAbove r er \<longleftrightarrow> rect_bottom r \<le> rect_top er + 8"

definition isLeft :: "rect \<Rightarrow> rect \<Rightarrow> bool" where
  "isLeft r er \<longleftrightarrow> rect_right r \<le> rect_left er + 8"

definition verticalDist :: "rect \<Rightarrow> rect \<Rightarrow> real" where
  "verticalDist r er = \<bar>rect_top er - rect_bottom r\<bar>"

definition horizontalDist :: "rect \<Rightarrow> rect \<Rightarrow> real" where
  "horizontalDist r er = \<bar>rect_left er - rect_right r\<bar>"

definition label_dist :: "rect \<Rightarrow> rect \<Rightarrow> real" where
  "label_dist r er = min (verticalDist r er) (horizontalDist r er)"

definition consider_label :: "element \<Rightarrow> label_candidate list \<Rightarrow> label_el \<Rightarrow> label_candidate list" where
  "consider_label el labelCandidates l =
     (let t = safeStr (l_innerText l)
      in if \<not> truthy t then labelCandidates
         else let r = l_rect l; er = el_rect el
              in if (isAbove r er \<or> isLeft r er) \<and> label_dist r er < 80
                 then labelCandidates @ [\<lparr>cand_text = t, cand_dist = label_dist r er\<rparr>]
                 else labelCandidates)"

text \<open>
  \<open>Array.prototype.sort\<close> is stable, as is \<open>sort_key\<close>. The \<open>try\<close> of the source
  guards calls that do not throw on an element of a document.
\<close>

definition findNearestLabelText :: "element \<Rightarrow> jsstring" where
  "findNearestLabelText el =
     (case el_container el of
        None \<Rightarrow> []
      | Some labels \<Rightarrow>
          let labelCandidates = foldl (consider_label el) [] labels
          in (case sort_key cand_dist labelCandidates of
                [] \<Rightarrow> []
              | c # _ \<Rightarrow> cand_text c))"

definition getElementTextSignals :: "element \<Rightarrow> signal list" where
  "getElementTextSignals el =
     (let signals = [];
          signals = add (getAttribute el ''placeholder'') 4 ''placeholder'' signals;
          signals = add (getAttribute el ''aria-label'') 5 ''aria-label'' signals;
          signals = add (getAttribute el ''name'') 3 ''name'' signals;
          signals = add (getAttribute el ''id'') 3 ''id'' signals;
          signals = add (getAttribute el ''autocomplete'') 7 ''autocomplete'' signals;
          signals = add (getAttribute el ''data-testid'') 2 ''data-testid'' signals;
          signals = add (getAttribute el ''data-test'') 2 ''data-test'' signals;
          signals = add (getAttribute el ''data-qa'') 2 ''data-qa'' signals;
          signals = (if truthy (or_str (getAttribute el ''id'') [])
                     then add (el_label_for el) 9 ''label-for'' signals else signals);
          signals = add (el_parent_label el) 9 ''label-wrap'' signals;
          near = findNearestLabelText el
      in if truthy near then add (Some near) 6 ''near-label'' signals else signals)"

section \<open>Tokenizer\<close>

text \<open>\<open>\p{L}\<close> and \<open>\p{N}\<close> on the code points below U+0180.\<close>

definition is_letter :: "nat \<Rightarrow> bool" where
  "is_letter c \<longleftrightarrow>
     (65 \<le> c \<and> c \<le> 90) \<or> (97 \<le> c \<and> c \<le> 122) \<or> c = 170 \<or> c = 181 \<or> c = 186 \<or>
     (192 \<le> c \<and> c \<le> 214) \<or> (216 \<le> c \<and> c \<le> 246) \<or> (248 \<le> c \<and> c \<le> 383)"

definition is_number :: "nat \<Rightarrow> bool" where
  "is_number c \<longleftrightarrow>
     (48 \<le> c \<and> c \<le> 57) \<or> c = 178 \<or> c = 179 \<or> c = 185 \<or> (188 \<le> c \<and> c \<le> 190)"

definition STOP_WORDS :: "jsstring list" where
  "STOP_WORDS = [js ''*'', js '':'', js ''-'', [8212], js ''('', js '')'', js ''['', js '']'']"

text \<open>The class \<open>[_/\\|]\<close>.\<close>

definition is_separator :: "nat \<Rightarrow> bool" where
  "is_separator c \<longleftrightarrow> c = 95 \<or> c = 47 \<or> c = 92 \<or> c = 124"

definition is_letter_or_number :: "platform \<Rightarrow> nat \<Rightarrow> bool" where
  "is_letter_or_number pf cp \<longleftrightarrow>
     (if cp < 384 then is_letter cp \<or> is_number cp else pf_letter_or_number pf cp)"

text \<open>The class \<open>[^\p{L}\p{N}\s+-]\<close>, of code points.\<close>

definition is_stripped :: "platform \<Rightarrow> nat \<Rightarrow> bool" where
  "is_stripped pf cp \<longleftrightarrow>
     \<not> (is_letter_or_number pf cp \<or> is_space cp \<or> cp = 43 \<or> cp = 45)"

text \<open>
  With the flag \<open>u\<close> the expression reads code points: a high surrogate followed by a
  low one is one code point, and is replaced by one space or kept whole.
  \<open>strip_symbols\<close> is \<open>replace(/[^\p{L}\p{N}\s+-]/gu, " ")\<close>.
\<close>

definition is_high_surrogate :: "nat \<Rightarrow> bool" where
  "is_high_surrogate c \<longleftrightarrow> 55296 \<le> c \<and> c \<le> 56319"

definition is_low_surrogate :: "nat \<Rightarrow> bool" where
  "is_low_surrogate c \<longleftrightarrow> 56320 \<le> c \<and> c \<le> 57343"

definition code_point :: "nat \<Rightarrow> nat \<Rightarrow> nat" where
  "code_point hi lo = 65536 + (hi - 55296) * 1024 + (lo - 56320)"

fun strip_symbols :: "platform \<Rightarrow> jsstring \<Rightarrow> jsstring" where
  "strip_symbols pf [] = []"
| "strip_symbols pf [c] = [if is_stripped pf c then 32 else c]"
| "strip_symbols pf (c # d # cs) =
     (if is_high_surrogate c \<and> is_low_surrogate d
      then (if is_stripped pf (code_point c d) then 32 # strip_symbols pf cs
            else c # d # strip_symbols pf cs)
      else (if is_stripped pf c then 32 else c) # strip_symbols pf (d # cs))"

definition tokenize :: "platform \<Rightarrow> jsstring \<Rightarrow> jsstring list" where
  "tokenize pf s =
     (let t = toLowerCase pf (safeStr (Some s))
      in if \<not> truthy t then []
         else let cleaned = strip_symbols pf (replace_runs is_separator (js '' '') t);
                  parts = filter truthy (split_ws cleaned)
              in filter (\<lambda>p. p \<notin> set STOP_WORDS) parts)"

section \<open>Field scorer\<close>

datatype fieldType =
  FirstName | LastName | FullName | Email | Phone | AddressLine | City | State
  | PostalCode | Country | Linkedin | Github | Website | DateOfBirth | Summary
  | CoverLetter | GraduationYear | ExperienceYears | SalaryExpectation

fun FIELD_SYNONYMS :: "fieldType \<Rightarrow> jsstring list" where
  "FIELD_SYNONYMS FirstName =
     [js ''first name'', js ''given name'', js ''forename'', js ''ad'', js ''isim'',
      js ''ad'' @ [305], js ''ad'' @ [305] @ js ''n'' @ [305] @ js ''z'', js ''adiniz'']"
| "FIELD_SYNONYMS LastName =
     [js ''last name'', js ''surname'', js ''family name'', js ''soyad'',
      js ''soyad'' @ [305], js ''soyad'' @ [305] @ js ''n'' @ [305] @ js ''z'',
      js ''soyadiniz'']"
| "FIELD_SYNONYMS FullName =
     [js ''full name'', js ''name'', js ''your name'', js ''ad soyad'', js ''isim soyisim'',
      js ''ad'' @ [305] @ js ''n'' @ [305] @ js ''z soyad'' @ [305] @ js ''n'' @ [305] @ js ''z'',
      js ''adiniz soyadiniz'']"
| "FIELD_SYNONYMS Email =
     [js ''email'', js ''e-mail'', js ''mail'', js ''eposta'', js ''e posta'', js ''e-posta'']"
| "FIELD_SYNONYMS Phone =
     [js ''phone'', js ''mobile'', js ''telephone'', js ''tel'', js ''cell'', js ''telefon'',
      js ''cep'', js ''gsm'', js ''mobil'']"
| "FIELD_SYNONYMS AddressLine =
     [js ''address'', js ''address line'', js ''street'', js ''street address'', js ''adres'',
      js ''adres sat'' @ [305] @ js ''r'' @ [305], js ''sokak'', js ''cadde'', js ''mahalle'']"
| "FIELD_SYNONYMS City =
     [js ''city'', js ''town'', [351] @ js ''ehir'', js ''sehir'',
      js ''il'' @ [231] @ js ''e'', js ''ilce'', js ''il'']"
| "FIELD_SYNONYMS State =
     [js ''state'', js ''province'', js ''region'', js ''eyalet'',
      js ''b'' @ [246] @ js ''lge'', js ''bolge'', js ''il'']"
| "FIELD_SYNONYMS PostalCode =
     [js ''zip'', js ''zipcode'', js ''postal'', js ''postal code'', js ''posta kodu'',
      js ''pk'', js ''zip code'']"
| "FIELD_SYNONYMS Country =
     [js ''country'', js ''nation'', [252] @ js ''lke'', js ''ulke'']"
| "FIELD_SYNONYMS Linkedin =
     [js ''linkedin'', js ''linked in'', js ''linkedin url'', js ''linkedin profili'']"
| "FIELD_SYNONYMS Github =
     [js ''github'', js ''github url'', js ''git hub'']"
| "FIELD_SYNONYMS Website =
     [js ''website'', js ''web site'', js ''portfolio'', js ''site'',
      js ''ki'' @ [351] @ js ''isel site'', js ''kisisel site'',
      js ''portf'' @ [246] @ js ''y'', js ''portfoy'']"
| "FIELD_SYNONYMS DateOfBirth =
     [js ''date of birth'', js ''birth date'', js ''dob'', js ''birthday'',
      js ''do'' @ [287] @ js ''um tarihi'', js ''dogum tarihi'']"
| "FIELD_SYNONYMS Summary =
     [js ''summary'', js ''about'', js ''about me'', js ''bio'', js ''profil'',
      js ''hakk'' @ [305] @ js ''mda'', js ''hakkimda'', [246] @ js ''zet'', js ''ozet'']"
| "FIELD_SYNONYMS CoverLetter =
     [js ''cover letter'', js ''motivation letter'', js ''additional information'',
      js ''additional info'', js ''anything else'', js ''message'', js ''notes'',
      js ''comment'', [246] @ js ''n yaz'' @ [305], js ''on yaz'' @ [305],
      js ''niyet mektubu'', js ''ek bilgi'', js ''ek bilgiler'', js ''mesaj'', js ''not'',
      js ''a'' @ [231] @ [305] @ js ''klama'', js ''aciklama'']"
| "FIELD_SYNONYMS GraduationYear =
     [js ''graduation year'', js ''graduation date'', js ''graduated'', js ''degree date'',
      js ''mezuniyet'', js ''mezuniyet y'' @ [305] @ js ''l'' @ [305], js ''mezuniyet yili'',
      js ''mezun olma'', js ''mezun oldum'']"
| "FIELD_SYNONYMS ExperienceYears =
     [js ''years of experience'', js ''experience'', js ''work experience'', js ''yoe'',
      js ''tecr'' @ [252] @ js ''be'', js ''tecrube'', js ''deneyim'',
      js ''ka'' @ [231] @ js '' y'' @ [305] @ js ''l'', js ''kac yil'',
      js ''y'' @ [305] @ js ''l deneyim'']"
| "FIELD_SYNONYMS SalaryExpectation =
     [js ''salary expectation'', js ''expected salary'', js ''salary'', js ''compensation'',
      js ''pay'', js ''maa'' @ [351] @ js '' beklentisi'', js ''maas beklentisi'',
      js ''beklenen maa'' @ [351], js ''ucret'', [252] @ js ''cret'', js ''maa'' @ [351],
      js ''maas'']"

definition AUTOCOMPLETE_MAP :: "(jsstring \<times> fieldType) list" where
  "AUTOCOMPLETE_MAP =
     [(js ''given-name'', FirstName),
      (js ''additional-name'', FirstName),
      (js ''family-name'', LastName),
      (js ''name'', FullName),
      (js ''email'', Email),
      (js ''tel'', Phone),
      (js ''tel-national'', Phone),
      (js ''tel-country-code'', Phone),
      (js ''street-address'', AddressLine),
      (js ''address-line1'', AddressLine),
      (js ''address-line2'', AddressLine),
      (js ''address-level2'', City),
      (js ''address-level1'', State),
      (js ''postal-code'', PostalCode),
      (js ''country'', Country),
      (js ''bday'', DateOfBirth)]"

text \<open>
  \<open>AUTOCOMPLETE_MAP\<close> is an object literal, so \<open>AUTOCOMPLETE_MAP[ac]\<close> finds the
  properties the literal declares and, for any other key, those every object inherits
  from \<open>Object.prototype\<close>, whose values are functions or objects (never a string,
  always truthy).
\<close>

datatype property_value = Undefined | Mapped fieldType | Inherited

definition Object_prototype_properties :: "jsstring list" where
  "Object_prototype_properties =
     [js ''constructor'', js ''__defineGetter__'', js ''__defineSetter__'',
      js ''hasOwnProperty'', js ''__lookupGetter__'', js ''__lookupSetter__'',
      js ''isPrototypeOf'', js ''propertyIsEnumerable'', js ''toString'', js ''valueOf'',
      js ''__proto__'', js ''toLocaleString'']"

definition AUTOCOMPLETE_MAP_get :: "jsstring \<Rightarrow> property_value" where
  "AUTOCOMPLETE_MAP_get key =
     (case map_of AUTOCOMPLETE_MAP key of
        Some ft \<Rightarrow> Mapped ft
      | None \<Rightarrow> if key \<in> set Object_prototype_properties then Inherited else Undefined)"

text \<open>"Autocomplete exact mapping".\<close>

definition score_autocomplete :: "platform \<Rightarrow> element \<Rightarrow> fieldType \<Rightarrow> int \<Rightarrow> int" where
  "score_autocomplete pf el fieldType score =
     (let ac = toLowerCase pf (safeStr (getAttribute el ''autocomplete''))
      in if truthy ac
         then let mapped = AUTOCOMPLETE_MAP_get ac
              in if mapped = Mapped fieldType then score + 30
                 else if mapped \<noteq> Undefined then score - 8
                 else score
         else score)"

text \<open>"Input type help".\<close>

definition score_input_type :: "platform \<Rightarrow> element \<Rightarrow> fieldType \<Rightarrow> int \<Rightarrow> int" where
  "score_input_type pf el fieldType score =
     (if tag_of pf el = js ''input''
      then let t = or_str (Some (toLowerCase pf (safeStr (getAttribute el ''type'')))) (js ''text'');
               score = (if fieldType = Email \<and> t = js ''email'' then score + 18 else score);
               score = (if fieldType = Phone \<and> t = js ''tel'' then score + 16 else score);
               score = (if (fieldType = Website \<or> fieldType = Linkedin \<or> fieldType = Github)
                           \<and> t = js ''url'' then score + 10 else score);
               score = (if fieldType = DateOfBirth \<and> t = js ''date'' then score + 18 else score);
               score = (if fieldType = SalaryExpectation \<and> t = js ''number''
                        then score + 10 else score)
           in score
      else score)"

text \<open>"Keyword matching in signals".\<close>

definition synonymTokens :: "platform \<Rightarrow> fieldType \<Rightarrow> jsstring list" where
  "synonymTokens pf fieldType = concat (map (tokenize pf) (FIELD_SYNONYMS fieldType))"

definition ambiguousNameToken :: "jsstring \<Rightarrow> bool" where
  "ambiguousNameToken tok \<longleftrightarrow> tok = js ''name'' \<or> tok = js ''isim''"

definition signal_local :: "platform \<Rightarrow> fieldType \<Rightarrow> jsstring list \<Rightarrow> int" where
  "signal_local pf fieldType tokens =
     (let local = foldl (\<lambda>local tok. if tok \<in> set (synonymTokens pf fieldType)
                                       then local + 3 else local) 0 tokens
      in if fieldType = FullName
         then (if list_ex ambiguousNameToken tokens then local + 3 else local)
         else (if list_ex ambiguousNameToken tokens \<and> fieldType \<noteq> FirstName
                  \<and> fieldType \<noteq> LastName
               then local - 2 else local))"

definition score_signal :: "platform \<Rightarrow> fieldType \<Rightarrow> int \<Rightarrow> signal \<Rightarrow> int" where
  "score_signal pf fieldType score s =
     (let local = signal_local pf fieldType (tokenize pf (sig_text s))
      in if local \<noteq> 0 then score + local * sig_weight s else score)"

definition score_keywords :: "platform \<Rightarrow> element \<Rightarrow> fieldType \<Rightarrow> int \<Rightarrow> int" where
  "score_keywords pf el fieldType score =
     foldl (score_signal pf fieldType) score (getElementTextSignals el)"

text \<open>
  "Extra: known IDs/names patterns". The regular expressions carry the flag \<open>i\<close> and
  are alternatives of literal words, so \<open>test\<close> is containment of one of the words in
  the ASCII-lower-cased subject; \<open>^fname$\<close> and \<open>^lname$\<close> ask for the whole subject.
\<close>

definition contains_any :: "jsstring list \<Rightarrow> jsstring \<Rightarrow> bool" where
  "contains_any words s = list_ex (str_includes (map ascii_lower s)) words"

text \<open>\<open>(w1|w2|...)[-_ ]?name\<close>.\<close>

definition sep_name :: "jsstring list \<Rightarrow> jsstring list" where
  "sep_name ws =
     concat (map (\<lambda>w. [w @ js ''name'', w @ js ''-name'', w @ js ''_name'', w @ js '' name'']) ws)"

definition firstName_pattern :: "jsstring \<Rightarrow> bool" where
  "firstName_pattern nm \<longleftrightarrow>
     contains_any (sep_name [js ''first'', js ''given'']) nm
     \<or> map ascii_lower nm = js ''fname'' \<or> contains_any [js ''ad''] nm"

definition lastName_pattern :: "jsstring \<Rightarrow> bool" where
  "lastName_pattern nm \<longleftrightarrow>
     contains_any (sep_name [js ''last'', js ''family'', js ''sur'']) nm
     \<or> map ascii_lower nm = js ''lname'' \<or> contains_any [js ''soyad''] nm"

definition email_pattern :: "jsstring \<Rightarrow> bool" where
  "email_pattern nm \<longleftrightarrow>
     contains_any [js ''email'', js ''e-mail'', js ''e_mail'', js ''e mail''] nm"

definition phone_pattern :: "jsstring \<Rightarrow> bool" where
  "phone_pattern nm \<longleftrightarrow>
     contains_any [js ''phone'', js ''mobile'', js ''tel'', js ''gsm'', js ''cep'', js ''telefon''] nm"

definition postalCode_pattern :: "jsstring \<Rightarrow> bool" where
  "postalCode_pattern nm \<longleftrightarrow> contains_any [js ''zip'', js ''postal'', js ''posta''] nm"

definition score_patterns :: "platform \<Rightarrow> element \<Rightarrow> fieldType \<Rightarrow> int \<Rightarrow> int" where
  "score_patterns pf el fieldType score =
     (let nm = toLowerCase pf (safeStr (getAttribute el ''name'') @ js '' ''
                            @ safeStr (getAttribute el ''id''))
      in if truthy nm
         then let score = (if fieldType = FirstName \<and> firstName_pattern nm
                           then score + 20 else score);
                  score = (if fieldType = LastName \<and> lastName_pattern nm
                           then score + 20 else score);
                  score = (if fieldType = Email \<and> email_pattern nm then score + 16 else score);
                  score = (if fieldType = Phone \<and> phone_pattern nm then score + 14 else score);
                  score = (if fieldType = PostalCode \<and> postalCode_pattern nm
                           then score + 12 else score);
                  score = (if fieldType = Linkedin \<and> contains_any [js ''linkedin''] nm
                           then score + 14 else score);
                  score = (if fieldType = Github \<and> contains_any [js ''github''] nm
                           then score + 14 else score)
              in score
         else score)"

text \<open>"Penalize if element seems like search".\<close>

definition score_search :: "platform \<Rightarrow> element \<Rightarrow> int \<Rightarrow> int" where
  "score_search pf el score =
     (let ph = toLowerCase pf (safeStr (getAttribute el ''placeholder''))
      in if str_includes ph (js ''search'') \<or> str_includes ph (js ''ara'')
         then score - 10 else score)"

text \<open>
  The \<open>score\<close> of the result of \<open>scoreFieldType\<close>: the five blocks of the source in
  their order, each updating the running score. The \<open>reasons\<close> list, which no block
  reads, is left out.
\<close>

definition scoreFieldType :: "platform \<Rightarrow> element \<Rightarrow> fieldType \<Rightarrow> int" where
  "scoreFieldType pf el fieldType =
     (let score = 0;
          score = score_autocomplete pf el fieldType score;
          score = score_input_type pf el fieldType score;
          score = score_keywords pf el fieldType score;
          score = score_patterns pf el fieldType score;
          score = score_search pf el score
      in score)"

section \<open>Value injector\<close>

text \<open>
  A value of JavaScript, as far as the injector can tell values apart: \<open>undefined\<close>,
  \<open>null\<close>, a string, any other value by what \<open>String(v)\<close> returns for it (a number, an
  object with a working \<open>toString\<close>, an error), and a value for which \<open>String(v)\<close>
  throws, by the value thrown. What is thrown and caught is a value too.
\<close>

datatype jsval = JsUndefined | JsNull | Str jsstring | Stringable jsstring | Unstringable jsval

text \<open>\<open>String(v)\<close>: it returns (\<open>Inr\<close>) or throws (\<open>Inl\<close>).\<close>

fun to_String :: "jsval \<Rightarrow> jsval + jsstring" where
  "to_String JsUndefined = Inr (js ''undefined'')"
| "to_String JsNull = Inr (js ''null'')"
| "to_String (Str s) = Inr s"
| "to_String (Stringable s) = Inr s"
| "to_String (Unstringable e) = Inl e"

text \<open>\<open>safeStr\<close> on any value: the test for \<open>null\<close> and \<open>undefined\<close>, then \<open>String(v).trim()\<close>.\<close>

fun safeStr_value :: "jsval \<Rightarrow> jsval + jsstring" where
  "safeStr_value JsUndefined = Inr (safeStr None)"
| "safeStr_value JsNull = Inr (safeStr None)"
| "safeStr_value v = (case to_String v of Inl e \<Rightarrow> Inl e | Inr s \<Rightarrow> Inr (safeStr (Some s)))"

text \<open>
  The result objects of the injector: \<open>{ok: true, from, to}\<close>,
  \<open>{ok: true, matched, to}\<close> and \<open>{ok: false, error}\<close>.
\<close>

datatype result =
  Written jsstring jsstring
  | Selected jsstring jsstring
  | Failed jsstring



fun res_to :: "result \<Rightarrow> jsstring option" where
  "res_to (Written prev val) = Some val"
| "res_to (Selected tier val) = Some val"
| "res_to (Failed err) = None"

fun res_matched :: "result \<Rightarrow> jsstring option" where
  "res_matched (Written prev val) = None"
| "res_matched (Selected tier val) = Some tier"
| "res_matched (Failed err) = None"

fun res_error :: "result \<Rightarrow> jsstring option" where
  "res_error (Written prev val) = None"
| "res_error (Selected tier val) = None"
| "res_error (Failed err) = Some err"

definition dispatchEvent :: "element \<Rightarrow> jsstring \<Rightarrow> element" where
  "dispatchEvent el ev = el\<lparr>el_dispatched := el_dispatched el @ [ev]\<rparr>"

definition normalizeForCompare :: "platform \<Rightarrow> jsstring option \<Rightarrow> jsstring" where
  "normalizeForCompare pf s = trim (replace_runs is_space (js '' '') (toLowerCase pf (safeStr s)))"

text \<open>
  The three statements every matching branch of \<open>setSelectValue\<close> runs. Assigning the
  value of one of its options to a selector selects that option.
\<close>

definition select_option :: "element \<Rightarrow> string \<Rightarrow> option_el \<Rightarrow> (jsval + result) \<times> element" where
  "select_option selectEl tier opt =
     (Inr (Selected (js tier) (opt_value opt)),
      dispatchEvent (selectEl\<lparr>el_value := opt_value opt\<rparr>) (js ''change''))"

text \<open>The tests of the three loops of \<open>setSelectValue\<close>, for one option.\<close>

definition value_matches :: "platform \<Rightarrow> jsstring \<Rightarrow> option_el \<Rightarrow> bool" where
  "value_matches pf desiredNorm opt \<longleftrightarrow> normalizeForCompare pf (Some (opt_value opt)) = desiredNorm"

definition text_matches :: "platform \<Rightarrow> jsstring \<Rightarrow> option_el \<Rightarrow> bool" where
  "text_matches pf desiredNorm opt \<longleftrightarrow>
     normalizeForCompare pf (Some (opt_textContent opt)) = desiredNorm"

definition fuzzy_matches :: "platform \<Rightarrow> jsstring \<Rightarrow> option_el \<Rightarrow> bool" where
  "fuzzy_matches pf desiredNorm opt \<longleftrightarrow>
     (let t = normalizeForCompare pf (Some (opt_textContent opt))
      in str_includes t desiredNorm \<or> str_includes desiredNorm t)"

text \<open>
  Each loop returns at the first option that passes its test: \<open>find\<close>. The function
  returns a result or, when \<open>String(desired)\<close> throws, throws.
\<close>

definition setSelectValue :: "platform \<Rightarrow> element \<Rightarrow> jsval \<Rightarrow> (jsval + result) \<times> element" where
  "setSelectValue pf selectEl desired =
     (case safeStr_value desired of
        Inl e \<Rightarrow> (Inl e, selectEl)
      | Inr desiredRaw \<Rightarrow>
          if \<not> truthy desiredRaw then (Inr (Failed (js ''empty desired value'')), selectEl)
          else let desiredNorm = normalizeForCompare pf (Some desiredRaw)
               in case find (value_matches pf desiredNorm) (el_options selectEl) of
                    Some opt \<Rightarrow> select_option selectEl ''value'' opt
                  | None \<Rightarrow>
                      (case find (text_matches pf desiredNorm) (el_options selectEl) of
                         Some opt \<Rightarrow> select_option selectEl ''text'' opt
                       | None \<Rightarrow>
                           (case find (fuzzy_matches pf desiredNorm) (el_options selectEl) of
                              Some opt \<Rightarrow> select_option selectEl ''fuzzy'' opt
                            | None \<Rightarrow> (Inr (Failed (js ''no option match'')), selectEl))))"

text \<open>
  The value setter of a file input throws when it is given a non-empty string. It throws
  a \<open>DOMException\<close>, for which \<open>String(e)\<close> returns its name and its message (here in
  the wording of one engine).
\<close>

definition file_input_message :: jsstring where
  "file_input_message =
     js ''Failed to set the '' @ [39] @ js ''value'' @ [39] @ js '' property on '' @ [39]
       @ js ''HTMLInputElement'' @ [39]
       @ js '': This input element accepts a filename, which may only be programmatically set to the empty string.''"

definition InvalidStateError :: jsval where
  "InvalidStateError = Stringable (js ''InvalidStateError: '' @ file_input_message)"

text \<open>
  \<open>desc.set.call(el, val)\<close> where the prototype of the element declares \<open>value\<close>,
  \<open>el.value = val\<close> elsewhere: either way the setter of the platform runs. It throws, or
  the element holds afterwards the value the platform stores for \<open>val\<close>. An exception
  of the platform is an object that \<open>String\<close> turns into its description.
\<close>

definition write_value :: "platform \<Rightarrow> element \<Rightarrow> jsstring \<Rightarrow> jsval + element" where
  "write_value pf el val =
     (if tag_of pf el = js ''input''
         \<and> map ascii_lower (or_str (getAttribute el ''type'') []) = js ''file'' \<and> truthy val
      then Inl InvalidStateError
      else case pf_set_value pf el val of
             Inl description \<Rightarrow> Inl (Stringable description)
           | Inr stored \<Rightarrow> Inr (el\<lparr>el_value := stored\<rparr>))"

text \<open>The body of the \<open>try\<close> of \<open>setNativeValue\<close>: it returns or throws.\<close>

definition setNativeValue_try :: "platform \<Rightarrow> element \<Rightarrow> jsval \<Rightarrow> (jsval + result) \<times> element" where
  "setNativeValue_try pf el v =
     (if tag_of pf el = js ''select''
      then setSelectValue pf el v
      else case safeStr_value v of
             Inl e \<Rightarrow> (Inl e, el)
           | Inr val \<Rightarrow>
               let prev = el_value el
               in (case write_value pf el val of
                     Inl e \<Rightarrow> (Inl e, el)
                   | Inr el' \<Rightarrow>
                       (Inr (Written prev val),
                        dispatchEvent (dispatchEvent el' (js ''input'')) (js ''change''))))"

text \<open>
  \<open>setNativeValue\<close> with its \<open>catch\<close>, which returns the failure carrying \<open>String(e)\<close>.
  \<open>String(e)\<close> is evaluated outside any \<open>try\<close>: when it throws, \<open>setNativeValue\<close>
  throws. Its outcome is again a return (\<open>Inr\<close>) or an exception thrown to the caller
  (\<open>Inl\<close>).
\<close>

definition setNativeValue :: "platform \<Rightarrow> element \<Rightarrow> jsval \<Rightarrow> (jsval + result) \<times> element" where
  "setNativeValue pf el v =
     (case setNativeValue_try pf el v of
        (Inl e, el') \<Rightarrow>
          (case to_String e of
             Inl e' \<Rightarrow> (Inl e', el')
           | Inr description \<Rightarrow> (Inr (Failed description), el'))
      | (Inr r, el') \<Rightarrow> (Inr r, el'))"

section \<open>Auxiliary notions\<close>

text \<open>
  A string is \<open>trimmed\<close> when \<open>trim\<close> has nothing to strip, and a \<open>word\<close> when it is
  trimmed and not empty. \<open>lower_fixed\<close> holds of code units \<open>lower_unit\<close> leaves alone.
\<close>

definition trimmed :: "jsstring \<Rightarrow> bool" where
  "trimmed s \<longleftrightarrow> s = [] \<or> (non_space (hd s) \<and> non_space (last s))"

definition word :: "jsstring \<Rightarrow> bool" where
  "word w \<longleftrightarrow> w \<noteq> [] \<and> trimmed w"

definition lower_fixed :: "nat \<Rightarrow> bool" where
  "lower_fixed d \<longleftrightarrow>
     d < 65 \<or> (90 < d \<and> d < 192) \<or> (222 < d \<and> d < 256) \<or> 382 < d
     \<or> (odd d \<and> ((256 < d \<and> d < 312) \<or> (330 < d \<and> d < 376)))
     \<or> (even d \<and> ((313 < d \<and> d < 329) \<or> (377 < d \<and> d < 383)))"

text \<open>
  What the proof of idempotence uses of \<open>String.prototype.toLowerCase\<close> on strings
  that hold a code unit outside the table: it is idempotent, and it maps a trimmed
  string to a trimmed string.
\<close>

abbreviation lower_case_stable :: "platform \<Rightarrow> bool" where
  "lower_case_stable pf \<equiv>
     \<forall>s. \<not> list_all in_table s \<longrightarrow>
       toLowerCase pf (toLowerCase pf s) = toLowerCase pf s
       \<and> (trimmed s \<longrightarrow> trimmed (toLowerCase pf s))"

text \<open>A label that \<open>findNearestLabelText\<close> keeps as a candidate.\<close>

definition qualifies :: "element \<Rightarrow> label_el \<Rightarrow> bool" where
  "qualifies el l \<longleftrightarrow>
     (isAbove (l_rect l) (el_rect el) \<or> isLeft (l_rect l) (el_rect el))
     \<and> label_dist (l_rect l) (el_rect el) < 80"

text \<open>A canonical profile read again as a raw profile: every property is present.\<close>

definition as_raw :: "profile \<Rightarrow> raw_profile" where
  "as_raw p =
     [''firstName'' \<mapsto> firstName p, ''lastName'' \<mapsto> lastName p, ''fullName'' \<mapsto> fullName p,
      ''email'' \<mapsto> email p, ''phone'' \<mapsto> phone p, ''addressLine'' \<mapsto> addressLine p,
      ''city'' \<mapsto> city p, ''state'' \<mapsto> state p, ''postalCode'' \<mapsto> postalCode p,
      ''country'' \<mapsto> country p, ''linkedin'' \<mapsto> linkedin p, ''github'' \<mapsto> github p,
      ''website'' \<mapsto> website p, ''dateOfBirth'' \<mapsto> dateOfBirth p, ''summary'' \<mapsto> summary p,
      ''coverLetter'' \<mapsto> coverLetter p, ''graduationYear'' \<mapsto> graduationYear p,
      ''experienceYears'' \<mapsto> experienceYears p,
      ''salaryExpectation'' \<mapsto> salaryExpectation p]"


section \<open>Example inputs\<close>

text \<open>
  A platform for the examples. Beyond the table its lower-casing knows the Greek
  capitals Alpha to Rho (and works unit by unit); it knows no letter from U+0180 on,
  and its setter stores the string it is given.
\<close>

definition sample_unit :: "nat \<Rightarrow> jsstring" where
  "sample_unit c = (if 913 \<le> c \<and> c \<le> 929 then [c + 32] else lower_unit c)"

definition sample_platform :: platform where
  "sample_platform =
     \<lparr> pf_toLowerCase = (\<lambda>s. concat (map sample_unit s)),
       pf_letter_or_number = (\<lambda>cp. False),
       pf_set_value = (\<lambda>el val. Inr val) \<rparr>"

text \<open>A raw profile whose e-mail address starts with the Greek capitals Alpha and Beta.\<close>

definition greek_raw :: raw_profile where
  "greek_raw = [''fullName'' \<mapsto> js ''Ada Lovelace'', ''email'' \<mapsto> [913, 914] @ js ''@X.COM '']"

definition ada_raw :: raw_profile where
  "ada_raw =
     [''firstName'' \<mapsto> js ''Ada'', ''lastName'' \<mapsto> js ''Lovelace'', ''email'' \<mapsto> js ''ADA@X.COM'']"

definition single_token_raw :: raw_profile where
  "single_token_raw = [''fullName'' \<mapsto> js ''Ada'']"

definition three_token_raw :: raw_profile where
  "three_token_raw = [''fullName'' \<mapsto> js '' Ada  King Lovelace '', ''lastName'' \<mapsto> js ''Byron'']"


definition no_rect :: rect where
  "no_rect = \<lparr>rect_top = 0, rect_bottom = 0, rect_left = 0, rect_right = 0\<rparr>"

text \<open>An element with no attribute, no label and no container.\<close>

definition bare :: "string \<Rightarrow> element" where
  "bare tag =
     \<lparr> el_tagName = Some (js tag), el_attrs = Map.empty, el_value = [], el_options = [],
       el_label_for = None, el_parent_label = None, el_container = None,
       el_rect = no_rect, el_dispatched = [] \<rparr>"

definition password_input :: element where
  "password_input = (bare ''INPUT'')\<lparr>el_attrs := [''type'' \<mapsto> js ''Password'']\<rparr>"

definition email_input :: element where
  "email_input = (bare ''INPUT'')\<lparr>el_attrs := [''type'' \<mapsto> js ''email''], el_value := js ''old''\<rparr>"


definition countries :: element where
  "countries =
     (bare ''SELECT'')
       \<lparr> el_value := js ''United States'',
         el_options :=
           [\<lparr>opt_value = js ''United States'', opt_textContent = js ''United States''\<rparr>,
            \<lparr>opt_value = js ''Canada'', opt_textContent = js ''Canada''\<rparr>] \<rparr>"

text \<open>A selector whose first option is a placeholder with an empty value.\<close>

definition with_placeholder :: element where
  "with_placeholder =
     (bare ''SELECT'')
       \<lparr> el_options :=
           [\<lparr>opt_value = [], opt_textContent = js ''Choose a country''\<rparr>,
            \<lparr>opt_value = js ''CA'', opt_textContent = js ''Canada''\<rparr>] \<rparr>"

definition republics :: element where
  "republics =
     (bare ''SELECT'')
       \<lparr> el_value := js ''FR'',
         el_options :=
           [\<lparr>opt_value = js ''FR'', opt_textContent = js ''French Republic''\<rparr>,
            \<lparr>opt_value = js ''TR'', opt_textContent = js ''Republic of Turkey''\<rparr>] \<rparr>"



text \<open>
  An input 300 wide whose container holds one label, 40 wide and aligned with the left
  edge of the input, whose bottom edge lies 200 above the top edge of the input; and
  the same input with a label 120 wide ending 10 above it.
\<close>

definition far_label :: label_el where
  "far_label =
     \<lparr> l_innerText = Some (js ''Name''),
       l_rect = \<lparr>rect_top = 0, rect_bottom = 20, rect_left = 0, rect_right = 40\<rparr> \<rparr>"

definition far_label_input :: element where
  "far_label_input =
     (bare ''INPUT'')
       \<lparr> el_container := Some [far_label],
         el_rect := \<lparr>rect_top = 220, rect_bottom = 250, rect_left = 0, rect_right = 300\<rparr> \<rparr>"

definition near_label :: label_el where
  "near_label =
     \<lparr> l_innerText = Some (js '' E-mail ''),
       l_rect = \<lparr>rect_top = 190, rect_bottom = 210, rect_left = 0, rect_right = 120\<rparr> \<rparr>"

definition near_label_input :: element where
  "near_label_input =
     (bare ''INPUT'')
       \<lparr> el_container := Some [near_label],
         el_rect := \<lparr>rect_top = 220, rect_bottom = 250, rect_left = 0, rect_right = 300\<rparr> \<rparr>"

text \<open>An input wrapped in a label that reads "Name", and an input whose autocomplete
  attribute is the word "Constructor".\<close>

definition name_labelled :: element where
  "name_labelled = (bare ''INPUT'')\<lparr>el_parent_label := Some (js ''Name'')\<rparr>"

definition constructor_input :: element where
  "constructor_input = (bare ''INPUT'')\<lparr>el_attrs := [''autocomplete'' \<mapsto> js ''Constructor'']\<rparr>"


section \<open>Properties of the normalizer\<close>

subsection \<open>Trimming\<close>

lemma dropWhile_space_id: "s \<noteq> [] \<Longrightarrow> non_space (hd s) \<Longrightarrow> dropWhile is_space s = s"
  by (cases s) (auto simp: non_space_def)

lemma trim_id: "trimmed s \<Longrightarrow> trim s = s"
proof (cases "s = []")
  case True
  then show ?thesis by (simp add: trim_def)
next
  case False
  assume "trimmed s"
  with False have h: "non_space (hd s)" and l: "non_space (last s)"
    by (auto simp: trimmed_def)
  have 1: "dropWhile is_space s = s" using False h by (rule dropWhile_space_id)
  have "hd (rev s) = last s" using False by (simp add: hd_rev)
  then have 2: "dropWhile is_space (rev s) = rev s"
    using False l by (intro dropWhile_space_id) auto
  show ?thesis by (simp add: trim_def 1 2)
qed

lemma trimmed_trim: "trimmed (trim s)"
proof (cases "trim s = []")
  case True
  then show ?thesis by (simp add: trimmed_def)
next
  case False
  define t where "t = dropWhile is_space s"
  define r where "r = dropWhile is_space (rev t)"
  have ts: "trim s = rev r" by (simp add: trim_def t_def r_def)
  with False have rne: "r \<noteq> []" by simp
  then have tne: "t \<noteq> []" by (auto simp: r_def)
  have "\<not> is_space (hd r)" using rne hd_dropWhile [of is_space "rev t"] by (simp add: r_def)
  then have l: "non_space (last (trim s))" using rne by (simp add: ts last_rev non_space_def)
  have "\<not> is_space (hd t)" using tne hd_dropWhile [of is_space s] by (simp add: t_def)
  moreover have "last r = last (rev t)"
    using rne unfolding r_def by (metis last_appendR takeWhile_dropWhile_id)
  ultimately have h: "non_space (hd (trim s))"
    using rne tne by (simp add: ts hd_rev last_rev non_space_def)
  show ?thesis using h l by (simp add: trimmed_def)
qed

lemma trim_trim: "trim (trim s) = trim s"
  by (rule trim_id) (rule trimmed_trim)

lemma trimmed_Nil: "trimmed []"
  by (simp add: trimmed_def)

lemma trimmed_safeStr: "trimmed (safeStr v)"
  by (cases v) (simp_all add: safeStr_def trimmed_trim trimmed_Nil)

lemma safeStr_Some_id: "trimmed s \<Longrightarrow> safeStr (Some s) = s"
  by (simp add: safeStr_def trim_id)

lemma no_space_trimmed: "list_all non_space s \<Longrightarrow> trimmed s"
  by (cases s) (auto simp: trimmed_def list_all_iff)

lemma trimmed_append:
  "trimmed a \<Longrightarrow> trimmed b \<Longrightarrow> a \<noteq> [] \<Longrightarrow> b \<noteq> [] \<Longrightarrow> trimmed (a @ m @ b)"
  by (auto simp: trimmed_def)

subsection \<open>Lower-casing\<close>

text \<open>Maps that work unit by unit.\<close>

lemma unitwise_idem:
  assumes "\<And>c. concat (map f (f c)) = f c"
  shows "concat (map f (concat (map f s))) = concat (map f s)"
  by (induction s) (simp_all add: assms)

lemma unitwise_trimmed:
  assumes ne: "\<And>c. f c \<noteq> []"
    and ns: "\<And>c. non_space c \<Longrightarrow> list_all non_space (f c)"
    and t: "trimmed s"
  shows "trimmed (concat (map f s))"
proof (cases "s = []")
  case True
  then show ?thesis by (simp add: trimmed_def)
next
  case False
  from False obtain c cs where s: "s = c # cs" by (cases s) auto
  from False obtain ds d where s': "s = ds @ [d]" by (cases s rule: rev_cases) auto
  from t s have "non_space c" by (simp add: trimmed_def)
  then have "non_space (hd (f c))"
    using ns [of c] ne [of c] by (cases "f c") auto
  then have h: "non_space (hd (concat (map f s)))"
    using ne [of c] by (simp add: s)
  from t s' have "non_space d" by (simp add: trimmed_def)
  then have "non_space (last (f d))"
    using ns [of d] ne [of d] by (auto simp: list_all_iff)
  then have l: "non_space (last (concat (map f s)))"
    using ne [of d] by (simp add: s')
  show ?thesis using h l by (simp add: trimmed_def)
qed

lemma unitwise_fixed: "list_all (\<lambda>d. f d = [d]) ds \<Longrightarrow> concat (map f ds) = ds"
  by (induction ds) simp_all

text \<open>The table.\<close>

lemma lower_unit_fixed: "lower_fixed c \<Longrightarrow> lower_unit c = [c]"
  unfolding lower_fixed_def lower_unit_def by (elim disjE conjE; simp; presburger)

lemma is_space_fixed: "is_space c \<Longrightarrow> lower_fixed c"
  unfolding is_space_def lower_fixed_def by (elim disjE conjE) simp_all

lemma lower_unit_space: "is_space c \<Longrightarrow> lower_unit c = [c]"
  by (simp add: lower_unit_fixed is_space_fixed)

lemma lower_unit_out:
  "lower_unit c = [c] \<or>
   list_all (\<lambda>d. lower_fixed d \<and> 97 \<le> d \<and> d < 776 \<and> d \<noteq> 160) (lower_unit c)"
  unfolding lower_unit_def lower_fixed_def by (simp add: not_le not_less; presburger)

lemma mid_non_space: "97 \<le> d \<Longrightarrow> d < 776 \<Longrightarrow> d \<noteq> 160 \<Longrightarrow> non_space d"
  by (simp add: non_space_def is_space_def)

lemma map_lower_unit_fixed: "list_all lower_fixed ds \<Longrightarrow> concat (map lower_unit ds) = ds"
  by (induction ds) (simp_all add: lower_unit_fixed)

lemma lower_unit_non_space: "non_space c \<Longrightarrow> list_all non_space (lower_unit c)"
  using lower_unit_out [of c] by (auto simp: list_all_iff mid_non_space)

lemma lower_unit_ne: "lower_unit c \<noteq> []"
  by (simp add: lower_unit_def)

lemma lower_unit_idem: "concat (map lower_unit (lower_unit c)) = lower_unit c"
proof -
  from lower_unit_out [of c] show ?thesis
  proof
    assume "lower_unit c = [c]"
    then show ?thesis by simp
  next
    assume "list_all (\<lambda>d. lower_fixed d \<and> 97 \<le> d \<and> d < 776 \<and> d \<noteq> 160) (lower_unit c)"
    then have "list_all lower_fixed (lower_unit c)" by (simp add: list_all_iff)
    then show ?thesis by (rule map_lower_unit_fixed)
  qed
qed

lemma latin_lower_idem: "latin_lower (latin_lower s) = latin_lower s"
  unfolding latin_lower_def by (rule unitwise_idem) (rule lower_unit_idem)

lemma trimmed_latin_lower: "trimmed s \<Longrightarrow> trimmed (latin_lower s)"
  unfolding latin_lower_def by (rule unitwise_trimmed) (simp_all add: lower_unit_ne lower_unit_non_space)

lemma in_table_lower_unit: "in_table c \<Longrightarrow> list_all in_table (lower_unit c)"
  unfolding in_table_def lower_unit_def by (elim disjE; simp; presburger)

lemma in_table_latin_lower: "list_all in_table s \<Longrightarrow> list_all in_table (latin_lower s)"
  by (induction s) (simp_all add: latin_lower_def in_table_lower_unit)

text \<open>
  Lower-casing a string within the table, on any platform, or any string on a platform
  that is stable beyond the table.
\<close>

lemma toLowerCase_idem:
  assumes "list_all in_table s \<or> lower_case_stable pf"
  shows "toLowerCase pf (toLowerCase pf s) = toLowerCase pf s"
proof (cases "list_all in_table s")
  case True
  then have "toLowerCase pf s = latin_lower s" by (simp add: toLowerCase_def)
  moreover have "toLowerCase pf (latin_lower s) = latin_lower (latin_lower s)"
    using True by (simp add: toLowerCase_def in_table_latin_lower)
  ultimately show ?thesis by (simp add: latin_lower_idem)
next
  case False
  with assms show ?thesis by blast
qed

lemma trimmed_toLowerCase:
  assumes "list_all in_table s \<or> lower_case_stable pf" and "trimmed s"
  shows "trimmed (toLowerCase pf s)"
proof (cases "list_all in_table s")
  case True
  then show ?thesis using assms(2) by (simp add: toLowerCase_def trimmed_latin_lower)
next
  case False
  with assms show ?thesis by blast
qed

text \<open>The platform of the examples is stable.\<close>

lemma sample_unit_ne: "sample_unit c \<noteq> []"
  by (simp add: sample_unit_def lower_unit_ne)

lemma sample_unit_non_space: "non_space c \<Longrightarrow> list_all non_space (sample_unit c)"
  by (simp add: sample_unit_def lower_unit_non_space) (simp add: non_space_def is_space_def)

lemma sample_unit_fixed: "lower_fixed d \<Longrightarrow> d < 776 \<Longrightarrow> sample_unit d = [d]"
  by (simp add: sample_unit_def lower_unit_fixed)

lemma sample_unit_idem: "concat (map sample_unit (sample_unit c)) = sample_unit c"
proof (cases "913 \<le> c \<and> c \<le> 929")
  case True
  then have "sample_unit c = [c + 32]" by (simp add: sample_unit_def)
  moreover have "sample_unit (c + 32) = [c + 32]"
    using True by (simp add: sample_unit_def lower_unit_fixed lower_fixed_def)
  ultimately show ?thesis by simp
next
  case False
  then have e: "sample_unit c = lower_unit c" by (auto simp: sample_unit_def)
  from lower_unit_out [of c] show ?thesis
  proof
    assume "lower_unit c = [c]"
    then show ?thesis using e by simp
  next
    assume "list_all (\<lambda>d. lower_fixed d \<and> 97 \<le> d \<and> d < 776 \<and> d \<noteq> 160) (lower_unit c)"
    then have "list_all (\<lambda>d. sample_unit d = [d]) (lower_unit c)"
      by (simp add: list_all_iff sample_unit_fixed)
    then have "concat (map sample_unit (lower_unit c)) = lower_unit c"
      by (rule unitwise_fixed)
    then show ?thesis using e by simp
  qed
qed

lemma toLowerCase_sample: "toLowerCase sample_platform s = concat (map sample_unit s)"
proof (cases "list_all in_table s")
  case True
  then have "\<forall>c \<in> set s. sample_unit c = lower_unit c"
    by (auto simp: list_all_iff sample_unit_def in_table_def)
  then have m: "map sample_unit s = map lower_unit s" by simp
  show ?thesis unfolding m using True by (simp add: toLowerCase_def latin_lower_def)
next
  case False
  then show ?thesis by (simp add: toLowerCase_def sample_platform_def)
qed

lemma sample_platform_stable: "lower_case_stable sample_platform"
  by (simp add: toLowerCase_sample unitwise_idem [of sample_unit, OF sample_unit_idem]
      unitwise_trimmed [of sample_unit, OF sample_unit_ne sample_unit_non_space])

subsection \<open>Phone numbers\<close>

lemma digit_non_space: "is_digit c \<Longrightarrow> non_space c"
  by (simp add: is_digit_def non_space_def is_space_def)

lemma normalizePhone_shape:
  "normalizePhone x = [] \<or>
   (\<exists>ds. list_all is_digit ds \<and> (normalizePhone x = 43 # ds \<or> (ds \<noteq> [] \<and> normalizePhone x = ds)))"
proof (cases "safeStr x = []")
  case True
  then show ?thesis by (simp add: normalizePhone_def)
next
  case False
  have d: "list_all is_digit (filter is_digit (safeStr x))" by (simp add: list_all_iff)
  show ?thesis
  proof (cases "startsWith (trim (safeStr x)) (js ''+'')")
    case True
    with False have "normalizePhone x = 43 # filter is_digit (safeStr x)"
      by (simp add: normalizePhone_def js_def)
    with d show ?thesis by blast
  next
    case nplus: False
    with False have e: "normalizePhone x = filter is_digit (safeStr x)"
      by (simp add: normalizePhone_def)
    show ?thesis
    proof (cases "filter is_digit (safeStr x) = []")
      case True
      with e show ?thesis by simp
    next
      case False
      with e d show ?thesis by metis
    qed
  qed
qed

lemma trimmed_digits: "list_all is_digit ds \<Longrightarrow> trimmed ds"
  by (rule no_space_trimmed) (auto simp: list_all_iff digit_non_space)

lemma trimmed_plus_digits:
  assumes "list_all is_digit ds"
  shows "trimmed (43 # ds)"
proof -
  have "non_space 43" by (simp add: non_space_def is_space_def)
  moreover have "list_all non_space ds"
    using assms by (auto simp: list_all_iff digit_non_space)
  ultimately show ?thesis by (intro no_space_trimmed) simp
qed

lemma trimmed_normalizePhone: "trimmed (normalizePhone x)"
  using normalizePhone_shape [of x] by (auto simp: trimmed_Nil trimmed_digits trimmed_plus_digits)

lemma filter_digits_id: "list_all is_digit ds \<Longrightarrow> filter is_digit ds = ds"
  by (induction ds) auto

lemma normalizePhone_idem: "normalizePhone (Some (normalizePhone x)) = normalizePhone x"
proof -
  note t = trimmed_normalizePhone [of x]
  from normalizePhone_shape [of x] consider
    (empty) "normalizePhone x = []"
    | (plus) ds where "list_all is_digit ds" "normalizePhone x = 43 # ds"
    | (digits) ds where "list_all is_digit ds" "ds \<noteq> []" "normalizePhone x = ds"
    by blast
  then show ?thesis
  proof cases
    case empty
    then show ?thesis by (simp add: normalizePhone_def safeStr_def trim_def)
  next
    case plus
    have "trimmed (43 # ds)" using plus(1) by (rule trimmed_plus_digits)
    then have "safeStr (Some (43 # ds)) = 43 # ds" by (rule safeStr_Some_id)
    moreover have "trim (43 # ds) = 43 # ds" using \<open>trimmed (43 # ds)\<close> by (rule trim_id)
    moreover have "\<not> is_digit 43" by (simp add: is_digit_def)
    ultimately show ?thesis
      using plus by (simp add: normalizePhone_def js_def startsWith_def filter_digits_id)
  next
    case digits
    have td: "trimmed ds" using digits(1) by (rule trimmed_digits)
    then have "safeStr (Some ds) = ds" by (rule safeStr_Some_id)
    moreover have "trim ds = ds" using td by (rule trim_id)
    moreover have "\<not> prefix [43] ds"
      using digits(1,2) by (cases ds) (auto simp: is_digit_def)
    ultimately show ?thesis
      using digits by (simp add: normalizePhone_def js_def startsWith_def filter_digits_id)
  qed
qed

subsection \<open>URLs\<close>

lemma has_scheme_https: "has_scheme (js ''https://'' @ u)"
  by (simp add: has_scheme_def js_def ascii_lower_def)

lemma trimmed_https: "trimmed u \<Longrightarrow> u \<noteq> [] \<Longrightarrow> trimmed (js ''https://'' @ u)"
  by (simp add: trimmed_def js_def non_space_def is_space_def)

lemma trimmed_normalizeUrl: "trimmed (normalizeUrl x)"
  using trimmed_safeStr [of x]
  by (auto simp: normalizeUrl_def Let_def trimmed_Nil trimmed_https)

lemma normalizeUrl_fixed:
  "trimmed u \<Longrightarrow> has_scheme u \<or> \<not> domain_like u \<Longrightarrow> normalizeUrl (Some u) = u"
  by (auto simp: normalizeUrl_def safeStr_Some_id)

lemma normalizeUrl_idem: "normalizeUrl (Some (normalizeUrl x)) = normalizeUrl x"
proof (rule normalizeUrl_fixed)
  show "trimmed (normalizeUrl x)" by (rule trimmed_normalizeUrl)
  show "has_scheme (normalizeUrl x) \<or> \<not> domain_like (normalizeUrl x)"
    by (auto simp: normalizeUrl_def Let_def has_scheme_https)
qed


subsection \<open>Name derivation\<close>

lemma as_raw_simps:
  "as_raw p ''firstName'' = Some (firstName p)"
  "as_raw p ''lastName'' = Some (lastName p)"
  "as_raw p ''fullName'' = Some (fullName p)"
  "as_raw p ''email'' = Some (email p)"
  "as_raw p ''phone'' = Some (phone p)"
  "as_raw p ''addressLine'' = Some (addressLine p)"
  "as_raw p ''city'' = Some (city p)"
  "as_raw p ''state'' = Some (state p)"
  "as_raw p ''postalCode'' = Some (postalCode p)"
  "as_raw p ''country'' = Some (country p)"
  "as_raw p ''linkedin'' = Some (linkedin p)"
  "as_raw p ''github'' = Some (github p)"
  "as_raw p ''website'' = Some (website p)"
  "as_raw p ''dateOfBirth'' = Some (dateOfBirth p)"
  "as_raw p ''summary'' = Some (summary p)"
  "as_raw p ''coverLetter'' = Some (coverLetter p)"
  "as_raw p ''graduationYear'' = Some (graduationYear p)"
  "as_raw p ''experienceYears'' = Some (experienceYears p)"
  "as_raw p ''salaryExpectation'' = Some (salaryExpectation p)"
  by (simp_all add: as_raw_def)

lemma split_ws_Nil: "split_ws [] = [[]]"
  by (simp add: split_ws.simps)

lemma split_ws_space:
  "is_space c \<Longrightarrow> split_ws (c # cs) = [] # split_ws (dropWhile is_space cs)"
  by (subst split_ws.simps) (simp add: non_space_def)

lemma split_ws_non_space:
  "\<not> is_space c \<Longrightarrow>
   split_ws (c # cs) = (case split_ws cs of [] \<Rightarrow> [[c]] | p # ps \<Rightarrow> (c # p) # ps)"
  by (subst split_ws.simps, subst (2) split_ws.simps) (simp add: non_space_def Let_def)

lemma split_ws_pieces: "w \<in> set (split_ws s) \<Longrightarrow> list_all non_space w"
proof (induction s arbitrary: w rule: split_ws.induct)
  case (1 s)
  have tw: "list_all non_space (takeWhile non_space s)"
    by (simp add: list_all_iff) (meson set_takeWhileD)
  show ?case
  proof (cases "dropWhile non_space s = []")
    case True
    with "1.prems" have "w = takeWhile non_space s"
      by (subst (asm) split_ws.simps) (simp add: Let_def)
    with tw show ?thesis by simp
  next
    case False
    with "1.prems" have "w = takeWhile non_space s
        \<or> w \<in> set (split_ws (dropWhile is_space (dropWhile non_space s)))"
      by (subst (asm) split_ws.simps) (auto simp: Let_def split: if_splits)
    then show ?thesis
    proof
      assume "w = takeWhile non_space s"
      with tw show ?thesis by simp
    next
      assume "w \<in> set (split_ws (dropWhile is_space (dropWhile non_space s)))"
      with "1.IH" [OF refl refl False] show ?thesis by simp
    qed
  qed
qed

lemma parts_words: "list_all word (filter truthy (split_ws s))"
  by (auto simp: list_all_iff word_def truthy_def dest!: split_ws_pieces intro: no_space_trimmed)

lemma join_words: "ws \<noteq> [] \<Longrightarrow> list_all word ws \<Longrightarrow> word (join sep ws)"
proof (induction sep ws rule: join.induct)
  case (1 sep)
  then show ?case by simp
next
  case (2 sep x)
  then show ?case by simp
next
  case (3 sep x y ys)
  then have "word x" and "word (join sep (y # ys))" by simp_all
  then show ?case by (simp add: word_def trimmed_append)
qed

lemma join_pair_empty:
  assumes "trimmed a" "trimmed b" "trim (join sep (filter truthy [a, b])) = []"
  shows "a = [] \<and> b = []"
proof (rule ccontr)
  assume n: "\<not> (a = [] \<and> b = [])"
  have "list_all word (filter truthy [a, b])"
    using assms(1,2) by (auto simp: word_def truthy_def)
  moreover have "filter truthy [a, b] \<noteq> []" using n by (auto simp: truthy_def)
  ultimately have w: "word (join sep (filter truthy [a, b]))" by (intro join_words)
  then have "trim (join sep (filter truthy [a, b])) = join sep (filter truthy [a, b])"
    by (simp add: word_def trim_id)
  with w assms(3) show False by (simp add: word_def)
qed

lemma trimmed_names_initial:
  "trimmed (firstName (initial_profile pf raw))" "trimmed (lastName (initial_profile pf raw))"
  "trimmed (fullName (initial_profile pf raw))"
  by (simp_all add: initial_profile_def trimmed_safeStr)

lemma derive_fullName_names:
  "firstName (derive_fullName p) = firstName p" "lastName (derive_fullName p) = lastName p"
  by (simp_all add: derive_fullName_def)

lemma derive_fullName_trimmed:
  "trimmed (fullName p) \<Longrightarrow> trimmed (fullName (derive_fullName p))"
  by (simp add: derive_fullName_def trimmed_trim)

lemma derive_fullName_empty:
  "trimmed (firstName p) \<Longrightarrow> trimmed (lastName p) \<Longrightarrow> fullName (derive_fullName p) = []
   \<Longrightarrow> firstName p = [] \<and> lastName p = []"
  by (auto simp: derive_fullName_def truthy_def dest: join_pair_empty split: if_splits)

lemma derive_names_fullName: "fullName (derive_names p) = fullName p"
  by (simp add: derive_names_def Let_def)

lemma derive_names_trimmed:
  assumes "trimmed (firstName p)" "trimmed (lastName p)"
  shows "trimmed (firstName (derive_names p)) \<and> trimmed (lastName (derive_names p))"
proof -
  let ?ps = "filter truthy (split_ws (fullName p))"
  have w: "list_all word ?ps" by (rule parts_words)
  have h: "2 \<le> length ?ps \<Longrightarrow> trimmed (hd ?ps)"
    using w by (cases ?ps) (simp_all add: word_def)
  have "2 \<le> length ?ps \<Longrightarrow> word (join (js '' '') (tl ?ps))"
    using w by (intro join_words) (cases ?ps; cases "tl ?ps"; simp)+
  then have t: "2 \<le> length ?ps \<Longrightarrow> trimmed (join (js '' '') (tl ?ps))"
    by (simp add: word_def)
  show ?thesis using assms h t by (simp add: derive_names_def Let_def)
qed

lemma derive_names_invariant:
  "(firstName (derive_names p) = [] \<or> lastName (derive_names p) = [])
   \<Longrightarrow> length (filter truthy (split_ws (fullName p))) < 2 \<or> fullName p = []"
proof -
  let ?ps = "filter truthy (split_ws (fullName p))"
  assume a: "firstName (derive_names p) = [] \<or> lastName (derive_names p) = []"
  have w: "list_all word ?ps" by (rule parts_words)
  have h: "2 \<le> length ?ps \<Longrightarrow> hd ?ps \<noteq> []"
    using w by (cases ?ps) (simp_all add: word_def)
  have "2 \<le> length ?ps \<Longrightarrow> word (join (js '' '') (tl ?ps))"
    using w by (intro join_words) (cases ?ps; cases "tl ?ps"; simp)+
  then have t: "2 \<le> length ?ps \<Longrightarrow> join (js '' '') (tl ?ps) \<noteq> []"
    by (simp add: word_def)
  show ?thesis
  proof (rule ccontr)
    assume "\<not> (length ?ps < 2 \<or> fullName p = [])"
    then have l: "2 \<le> length ?ps" and n: "fullName p \<noteq> []" by simp_all
    from a l h [OF l] t [OF l] n show False
      by (auto simp: derive_names_def Let_def truthy_def split: if_splits)
  qed
qed


lemma derive_names_idem: "derive_names (derive_names p) = derive_names p"
proof -
  let ?q = "derive_names p"
  have "\<not> ((\<not> truthy (firstName ?q) \<or> \<not> truthy (lastName ?q)) \<and> truthy (fullName ?q))
        \<or> \<not> 2 \<le> length (filter truthy (split_ws (fullName ?q)))"
    using derive_names_invariant [of p] by (auto simp: truthy_def derive_names_fullName)
  then show ?thesis by (subst derive_names_def) (auto simp: Let_def)
qed

lemma derive_names_other:
  "email (derive_names p) = email p" "phone (derive_names p) = phone p"
  "addressLine (derive_names p) = addressLine p" "city (derive_names p) = city p"
  "state (derive_names p) = state p" "postalCode (derive_names p) = postalCode p"
  "country (derive_names p) = country p" "linkedin (derive_names p) = linkedin p"
  "github (derive_names p) = github p" "website (derive_names p) = website p"
  "dateOfBirth (derive_names p) = dateOfBirth p" "summary (derive_names p) = summary p"
  "coverLetter (derive_names p) = coverLetter p"
  "graduationYear (derive_names p) = graduationYear p"
  "experienceYears (derive_names p) = experienceYears p"
  "salaryExpectation (derive_names p) = salaryExpectation p"
  by (simp_all add: derive_names_def Let_def)

lemma derive_fullName_other:
  "email (derive_fullName p) = email p" "phone (derive_fullName p) = phone p"
  "addressLine (derive_fullName p) = addressLine p" "city (derive_fullName p) = city p"
  "state (derive_fullName p) = state p" "postalCode (derive_fullName p) = postalCode p"
  "country (derive_fullName p) = country p" "linkedin (derive_fullName p) = linkedin p"
  "github (derive_fullName p) = github p" "website (derive_fullName p) = website p"
  "dateOfBirth (derive_fullName p) = dateOfBirth p" "summary (derive_fullName p) = summary p"
  "coverLetter (derive_fullName p) = coverLetter p"
  "graduationYear (derive_fullName p) = graduationYear p"
  "experienceYears (derive_fullName p) = experienceYears p"
  "salaryExpectation (derive_fullName p) = salaryExpectation p"
  by (simp_all add: derive_fullName_def)

lemma safeStr_safeStr: "safeStr (Some (safeStr v)) = safeStr v"
  by (rule safeStr_Some_id) (rule trimmed_safeStr)

lemma email_idem:
  assumes "list_all in_table (safeStr v) \<or> lower_case_stable pf"
  shows "toLowerCase pf (safeStr (Some (toLowerCase pf (safeStr v)))) = toLowerCase pf (safeStr v)"
proof -
  have "trimmed (toLowerCase pf (safeStr v))"
    using assms trimmed_safeStr by (rule trimmed_toLowerCase)
  then have "safeStr (Some (toLowerCase pf (safeStr v))) = toLowerCase pf (safeStr v)"
    by (rule safeStr_Some_id)
  then show ?thesis using toLowerCase_idem [OF assms] by simp
qed

lemma normalizeProfile_names_trimmed:
  "trimmed (firstName (normalizeProfile pf raw))" "trimmed (lastName (normalizeProfile pf raw))"
  "trimmed (fullName (normalizeProfile pf raw))"
  using derive_names_trimmed [of "derive_fullName (initial_profile pf raw)"]
  by (simp_all add: normalizeProfile_def derive_fullName_names trimmed_names_initial
      derive_names_fullName derive_fullName_trimmed)

lemma initial_profile_as_raw':
  "initial_profile pf (as_raw p) =
     \<lparr> firstName = safeStr (Some (firstName p)),
       lastName = safeStr (Some (lastName p)),
       fullName = safeStr (Some (fullName p)),
       email = toLowerCase pf (safeStr (Some (email p))),
       phone = normalizePhone (Some (phone p)),
       addressLine = safeStr (Some (addressLine p)),
       city = safeStr (Some (city p)),
       state = safeStr (Some (state p)),
       postalCode = safeStr (Some (postalCode p)),
       country = safeStr (Some (country p)),
       linkedin = normalizeUrl (Some (linkedin p)),
       github = normalizeUrl (Some (github p)),
       website = normalizeUrl (Some (website p)),
       dateOfBirth = safeStr (Some (dateOfBirth p)),
       summary = safeStr (Some (summary p)),
       coverLetter = safeStr (Some (coverLetter p)),
       graduationYear = safeStr (Some (graduationYear p)),
       experienceYears = safeStr (Some (experienceYears p)),
       salaryExpectation = safeStr (Some (salaryExpectation p)) \<rparr>"
  by (simp add: initial_profile_def as_raw_simps)

lemma normalizeProfile_other:
  "email (normalizeProfile pf raw) = toLowerCase pf (safeStr (raw ''email''))"
  "phone (normalizeProfile pf raw) = normalizePhone (raw ''phone'')"
  "addressLine (normalizeProfile pf raw) = safeStr (raw ''addressLine'')"
  "city (normalizeProfile pf raw) = safeStr (raw ''city'')"
  "state (normalizeProfile pf raw) = safeStr (raw ''state'')"
  "postalCode (normalizeProfile pf raw) = safeStr (raw ''postalCode'')"
  "country (normalizeProfile pf raw) = safeStr (raw ''country'')"
  "linkedin (normalizeProfile pf raw) = normalizeUrl (raw ''linkedin'')"
  "github (normalizeProfile pf raw) = normalizeUrl (raw ''github'')"
  "website (normalizeProfile pf raw) = normalizeUrl (raw ''website'')"
  "dateOfBirth (normalizeProfile pf raw) = safeStr (raw ''dateOfBirth'')"
  "summary (normalizeProfile pf raw) = safeStr (raw ''summary'')"
  "coverLetter (normalizeProfile pf raw) = safeStr (raw ''coverLetter'')"
  "graduationYear (normalizeProfile pf raw) = safeStr (raw ''graduationYear'')"
  "experienceYears (normalizeProfile pf raw) = safeStr (raw ''experienceYears'')"
  "salaryExpectation (normalizeProfile pf raw) = safeStr (raw ''salaryExpectation'')"
  by (simp_all add: normalizeProfile_def derive_names_other derive_fullName_other
      initial_profile_def)

lemma initial_profile_as_raw:
  assumes "list_all in_table (safeStr (raw ''email'')) \<or> lower_case_stable pf"
  shows "initial_profile pf (as_raw (normalizeProfile pf raw)) = normalizeProfile pf raw"
  unfolding initial_profile_as_raw'
  by (rule profile.equality)
     (simp_all add: normalizeProfile_other safeStr_safeStr email_idem [OF assms]
        normalizePhone_idem normalizeUrl_idem safeStr_Some_id normalizeProfile_names_trimmed)

lemma derive_fullName_normalized:
  "derive_fullName (normalizeProfile pf raw) = normalizeProfile pf raw"
proof (cases "fullName (normalizeProfile pf raw) = []")
  case False
  then show ?thesis by (simp add: derive_fullName_def truthy_def)
next
  case True
  let ?p1 = "derive_fullName (initial_profile pf raw)"
  from True have e: "fullName ?p1 = []"
    by (simp add: normalizeProfile_def derive_names_fullName)
  then have "firstName (initial_profile pf raw) = [] \<and> lastName (initial_profile pf raw) = []"
    by (intro derive_fullName_empty trimmed_names_initial)
  then have n: "firstName ?p1 = []" "lastName ?p1 = []"
    by (simp_all add: derive_fullName_names)
  have "derive_names ?p1 = ?p1" using e by (simp add: derive_names_def [of ?p1] truthy_def)
  then have p: "normalizeProfile pf raw = ?p1" by (simp add: normalizeProfile_def)
  have "derive_fullName ?p1 = ?p1\<lparr>fullName := fullName ?p1\<rparr>"
    using e n by (simp add: derive_fullName_def [of ?p1] truthy_def trim_def)
  then show ?thesis using p by simp
qed

subsection \<open>Evaluation\<close>

lemmas string_eval = js_def safeStr_def trim_def is_space_def non_space_def toLowerCase_def
  latin_lower_def in_table_def lower_unit_def truthy_def split_ws_Nil split_ws_space
  split_ws_non_space

lemmas normalizer_eval = normalizeProfile_def initial_profile_def derive_fullName_def
  derive_names_def normalizePhone_def normalizeUrl_def

subsection \<open>Claims\<close>

text \<open>
  C8. The raw profile with \<open>firstName\<close> "Ada", \<open>lastName\<close> "Lovelace" and \<open>email\<close>
  "ADA@X.COM", every other property absent, is normalized to the profile with
  \<open>firstName\<close> "Ada", \<open>lastName\<close> "Lovelace", \<open>fullName\<close> "Ada Lovelace", \<open>email\<close>
  "ada@x.com" and the empty string in the fifteen other fields, on every platform.
\<close>

theorem normalizeProfile_ada:
  "normalizeProfile pf ada_raw =
     \<lparr> firstName = js ''Ada'', lastName = js ''Lovelace'', fullName = js ''Ada Lovelace'',
       email = js ''ada@x.com'', phone = [], addressLine = [], city = [], state = [],
       postalCode = [], country = [], linkedin = [], github = [], website = [],
       dateOfBirth = [], summary = [], coverLetter = [], graduationYear = [],
       experienceYears = [], salaryExpectation = [] \<rparr>"
  by (simp add: ada_raw_def normalizer_eval string_eval)

text \<open>
  C3, as stated, fails: a raw profile whose only property is the \<open>fullName\<close> "Ada" has
  an empty \<open>firstName\<close> and a non-empty \<open>fullName\<close> whose first token is "Ada", and
  its normalized \<open>firstName\<close> is still empty (on every platform; the theorem names
  one).
\<close>

lemma single_token_any_platform: "firstName (normalizeProfile pf single_token_raw) = []"
  by (simp add: single_token_raw_def normalizer_eval string_eval)

theorem single_token_not_split:
  "safeStr (single_token_raw ''firstName'') = []
   \<and> safeStr (single_token_raw ''fullName'') = js ''Ada''
   \<and> filter truthy (split_ws (js ''Ada'')) = [js ''Ada'']
   \<and> firstName (normalizeProfile sample_platform single_token_raw) = []"
  by (simp add: single_token_any_platform) (simp add: single_token_raw_def string_eval)

text \<open>
  C3, amended. Let \<open>firstName\<close> or \<open>lastName\<close> be empty and \<open>fullName\<close> not (each after
  \<open>safeStr\<close>). When \<open>fullName\<close> has at least two tokens, an empty \<open>firstName\<close> becomes
  the first token and an empty \<open>lastName\<close> the other tokens joined by spaces, and a
  name that was given stays; when \<open>fullName\<close> is a single token, \<open>firstName\<close> and
  \<open>lastName\<close> stay as they were. \<open>fullName\<close> itself is kept.
\<close>

theorem normalizeProfile_splits_fullName:
  assumes "safeStr (raw ''firstName'') = [] \<or> safeStr (raw ''lastName'') = []"
    and "safeStr (raw ''fullName'') \<noteq> []"
  shows "fullName (normalizeProfile pf raw) = safeStr (raw ''fullName'') \<and>
    (if 2 \<le> length (filter truthy (split_ws (safeStr (raw ''fullName''))))
     then firstName (normalizeProfile pf raw) =
            (if safeStr (raw ''firstName'') = []
             then hd (filter truthy (split_ws (safeStr (raw ''fullName''))))
             else safeStr (raw ''firstName''))
          \<and> lastName (normalizeProfile pf raw) =
            (if safeStr (raw ''lastName'') = []
             then join (js '' '') (tl (filter truthy (split_ws (safeStr (raw ''fullName'')))))
             else safeStr (raw ''lastName''))
     else firstName (normalizeProfile pf raw) = safeStr (raw ''firstName'')
          \<and> lastName (normalizeProfile pf raw) = safeStr (raw ''lastName''))"
  using assms
  by (auto simp: normalizeProfile_def initial_profile_def derive_fullName_def derive_names_def
      truthy_def Let_def)

theorem normalizeProfile_splits_fullName_witness:
  "safeStr (three_token_raw ''firstName'') = []
   \<and> safeStr (three_token_raw ''fullName'') = js ''Ada  King Lovelace''
   \<and> filter truthy (split_ws (js ''Ada  King Lovelace'')) = [js ''Ada'', js ''King'', js ''Lovelace'']
   \<and> firstName (normalizeProfile sample_platform three_token_raw) = js ''Ada''
   \<and> lastName (normalizeProfile sample_platform three_token_raw) = js ''Byron''"
  using normalizeProfile_splits_fullName [where raw = three_token_raw and pf = sample_platform]
  by (simp add: three_token_raw_def string_eval)

text \<open>
  C9. Normalizing is idempotent: the normalized profile, read again as a raw profile,
  is normalized to itself, field for field. The e-mail address is the one field that
  goes through \<open>toLowerCase\<close>. For every raw profile whose address lies within the
  table (Basic Latin, Latin-1, Latin Extended-A) this holds on every platform; for the
  other raw profiles it holds on every platform whose \<open>toLowerCase\<close> is idempotent and
  maps a trimmed string to a trimmed string (\<open>lower_case_stable\<close>). The witness has a
  profile of either kind; the address of the second starts with two Greek capitals.
\<close>

theorem normalizeProfile_idempotent:
  assumes "list_all in_table (safeStr (raw ''email'')) \<or> lower_case_stable pf"
  shows "normalizeProfile pf (as_raw (normalizeProfile pf raw)) = normalizeProfile pf raw"
proof -
  have "normalizeProfile pf (as_raw (normalizeProfile pf raw))
      = derive_names (derive_fullName (normalizeProfile pf raw))"
    by (simp add: normalizeProfile_def [of pf "as_raw (normalizeProfile pf raw)"]
        initial_profile_as_raw [where raw = raw and pf = pf, OF assms])
  also have "\<dots> = derive_names (normalizeProfile pf raw)"
    by (simp add: derive_fullName_normalized)
  also have "\<dots> = normalizeProfile pf raw"
    by (simp add: normalizeProfile_def derive_names_idem)
  finally show ?thesis .
qed

theorem normalizeProfile_idempotent_witness:
  "list_all in_table (safeStr (ada_raw ''email''))
   \<and> normalizeProfile sample_platform (as_raw (normalizeProfile sample_platform ada_raw))
       = normalizeProfile sample_platform ada_raw
   \<and> \<not> list_all in_table (safeStr (greek_raw ''email''))
   \<and> email (normalizeProfile sample_platform greek_raw) = [945, 946] @ js ''@x.com''
   \<and> firstName (normalizeProfile sample_platform greek_raw) = js ''Ada''
   \<and> normalizeProfile sample_platform (as_raw (normalizeProfile sample_platform greek_raw))
       = normalizeProfile sample_platform greek_raw"
proof -
  have a: "list_all in_table (safeStr (ada_raw ''email''))"
    by (simp add: ada_raw_def js_def safeStr_def trim_def is_space_def in_table_def)
  have g: "\<not> list_all in_table (safeStr (greek_raw ''email''))"
    by (simp add: greek_raw_def js_def safeStr_def trim_def is_space_def in_table_def)
  have e: "email (normalizeProfile sample_platform greek_raw) = [945, 946] @ js ''@x.com''"
    by (simp add: normalizeProfile_other toLowerCase_sample sample_unit_def greek_raw_def
        js_def safeStr_def trim_def is_space_def lower_unit_def)
  have f: "firstName (normalizeProfile sample_platform greek_raw) = js ''Ada''"
    by (simp add: greek_raw_def normalizeProfile_def initial_profile_def derive_fullName_def
        derive_names_def js_def safeStr_def trim_def is_space_def non_space_def truthy_def
        split_ws_Nil split_ws_space split_ws_non_space)
  from normalizeProfile_idempotent [where raw = ada_raw and pf = sample_platform, OF disjI1 [OF a]]
    normalizeProfile_idempotent [where raw = greek_raw and pf = sample_platform,
      OF disjI2 [OF sample_platform_stable]]
    a g e f
  show ?thesis by simp
qed

section \<open>Properties of the fillability filter\<close>

lemmas element_eval = bare_def no_rect_def tag_of_def or_str_def getAttribute_def

text \<open>
  C7. A text area and a discrete selector are fillable. An input is fillable exactly
  when its declared type (the \<open>type\<close> attribute, lower-cased, "text" when absent or
  empty) is none of password, hidden, file, submit, button, reset, checkbox and radio.
\<close>

theorem isFillableElement_kinds:
  "(tag_of pf el = js ''textarea'' \<or> tag_of pf el = js ''select'' \<longrightarrow> isFillableElement pf (Some el))
   \<and> (tag_of pf el = js ''input'' \<longrightarrow>
        isFillableElement pf (Some el) =
          (toLowerCase pf (or_str (getAttribute el ''type'') (js ''text''))
             \<notin> set [js ''password'', js ''hidden'', js ''file'', js ''submit'', js ''button'',
                     js ''reset'', js ''checkbox'', js ''radio'']))"
  by (auto simp: isFillableElement_def Let_def js_def)

theorem isFillableElement_kinds_witness:
  "tag_of sample_platform password_input = js ''input''
   \<and> \<not> isFillableElement sample_platform (Some password_input)
   \<and> tag_of sample_platform email_input = js ''input''
   \<and> isFillableElement sample_platform (Some email_input)
   \<and> tag_of sample_platform (bare ''TEXTAREA'') = js ''textarea''
   \<and> isFillableElement sample_platform (Some (bare ''TEXTAREA''))"
  using isFillableElement_kinds [of sample_platform password_input]
    isFillableElement_kinds [of sample_platform email_input]
    isFillableElement_kinds [of sample_platform "bare ''TEXTAREA''"]
  by (simp add: password_input_def email_input_def element_eval string_eval)

section \<open>Properties of the value injector\<close>


lemma find_first:
  "xs = pre @ x # post \<Longrightarrow> \<not> list_ex P pre \<Longrightarrow> P x \<Longrightarrow> find P xs = Some x"
  by (induction pre arbitrary: xs) (auto simp: list_ex_iff)

lemma find_none: "\<not> list_ex P xs \<Longrightarrow> find P xs = None"
  by (simp add: find_None_iff list_ex_iff)

lemma safeStr_value_cases:
  "(\<exists>e. safeStr_value v = Inl e \<and> to_String v = Inl e) \<or> (\<exists>s. safeStr_value v = Inr s)"
  by (cases v) (auto split: sum.splits)


text \<open>
  C4, as stated, fails for an empty desired value: the first option of the selector
  has the empty value, so the value test passes for it, and \<open>setSelectValue\<close> returns
  the failure "empty desired value" all the same, before any test.
\<close>

theorem empty_value_skips_the_tiers:
  "safeStr_value (Str []) = Inr []
   \<and> normalizeForCompare sample_platform (Some (opt_value (hd (el_options with_placeholder))))
       = normalizeForCompare sample_platform (Some [])
   \<and> setSelectValue sample_platform with_placeholder (Str [])
       = (Inr (Failed (js ''empty desired value'')), with_placeholder)"
  by (simp add: with_placeholder_def bare_def setSelectValue_def string_eval)

text \<open>
  C4, amended. For a desired value that is not empty after \<open>safeStr\<close>,
  \<open>setSelectValue\<close> selects the first option whose normalized value equals the
  normalized desired value; when no option matches by value, the first option whose
  normalized text equals it; when none matches by value or by text, the first option
  whose normalized text contains it or is contained in it; and when no option passes
  any of the three tests it returns the failure "no option match" and leaves the
  selector as it was. To select is to return the tier and the value of the option, to
  make that value the value of the selector and to dispatch "change". The witness
  reaches each of the four outcomes; two of them are the examples of the claim.
\<close>

theorem setSelectValue_tiers:
  fixes pf :: platform and sel :: element and desired :: jsval and desiredRaw :: jsstring
  defines "d \<equiv> normalizeForCompare pf (Some desiredRaw)"
  defines "by_value \<equiv> \<lambda>opt. normalizeForCompare pf (Some (opt_value opt)) = d"
    and "by_text \<equiv> \<lambda>opt. normalizeForCompare pf (Some (opt_textContent opt)) = d"
    and "by_containment \<equiv> \<lambda>opt.
          str_includes (normalizeForCompare pf (Some (opt_textContent opt))) d
          \<or> str_includes d (normalizeForCompare pf (Some (opt_textContent opt)))"
    and "selected \<equiv> \<lambda>tier opt.
          (Inr (Selected (js tier) (opt_value opt)) :: jsval + result,
           sel\<lparr>el_value := opt_value opt, el_dispatched := el_dispatched sel @ [js ''change'']\<rparr>)"
  assumes sv: "safeStr_value desired = Inr desiredRaw" and ne: "desiredRaw \<noteq> []"
  shows
    "(\<forall>pre opt post.
        el_options sel = pre @ opt # post \<and> \<not> list_ex by_value pre \<and> by_value opt
        \<longrightarrow> setSelectValue pf sel desired = selected ''value'' opt)
   \<and> (\<forall>pre opt post.
        \<not> list_ex by_value (el_options sel)
        \<and> el_options sel = pre @ opt # post \<and> \<not> list_ex by_text pre \<and> by_text opt
        \<longrightarrow> setSelectValue pf sel desired = selected ''text'' opt)
   \<and> (\<forall>pre opt post.
        \<not> list_ex by_value (el_options sel) \<and> \<not> list_ex by_text (el_options sel)
        \<and> el_options sel = pre @ opt # post
        \<and> \<not> list_ex by_containment pre \<and> by_containment opt
        \<longrightarrow> setSelectValue pf sel desired = selected ''fuzzy'' opt)
   \<and> (\<not> list_ex by_value (el_options sel) \<and> \<not> list_ex by_text (el_options sel)
        \<and> \<not> list_ex by_containment (el_options sel)
        \<longrightarrow> setSelectValue pf sel desired = (Inr (Failed (js ''no option match'')), sel))"
proof -
  have v: "value_matches pf d = by_value" and t: "text_matches pf d = by_text"
    and f: "fuzzy_matches pf d = by_containment"
    by (auto simp: value_matches_def text_matches_def fuzzy_matches_def by_value_def
        by_text_def by_containment_def Let_def)
  have s: "select_option sel tier opt = selected tier opt" for tier opt
    by (simp add: select_option_def selected_def dispatchEvent_def)
  have unfold: "setSelectValue pf sel desired =
      (case find by_value (el_options sel) of
         Some opt \<Rightarrow> selected ''value'' opt
       | None \<Rightarrow>
           (case find by_text (el_options sel) of
              Some opt \<Rightarrow> selected ''text'' opt
            | None \<Rightarrow>
                (case find by_containment (el_options sel) of
                   Some opt \<Rightarrow> selected ''fuzzy'' opt
                 | None \<Rightarrow> (Inr (Failed (js ''no option match'')), sel))))"
    using sv ne
    by (simp add: setSelectValue_def truthy_def Let_def d_def [symmetric] v t f s
        cong: option.case_cong)
  show ?thesis
    unfolding unfold
    by (intro conjI allI impI; elim conjE) (simp_all add: find_first find_none)
qed

theorem setSelectValue_tiers_witness:
  "setSelectValue sample_platform countries (Str (js '' canada ''))
     = (Inr (Selected (js ''value'') (js ''Canada'')),
        countries\<lparr>el_value := js ''Canada'', el_dispatched := [js ''change'']\<rparr>)
   \<and> setSelectValue sample_platform republics (Str (js ''French  Republic''))
     = (Inr (Selected (js ''text'') (js ''FR'')),
        republics\<lparr>el_value := js ''FR'', el_dispatched := [js ''change'']\<rparr>)
   \<and> setSelectValue sample_platform republics (Str (js ''Turkey''))
     = (Inr (Selected (js ''fuzzy'') (js ''TR'')),
        republics\<lparr>el_value := js ''TR'', el_dispatched := [js ''change'']\<rparr>)
   \<and> setSelectValue sample_platform countries (Str (js ''usa''))
     = (Inr (Failed (js ''no option match'')), countries)"
proof -
  have a: "safeStr_value (Str (js '' canada '')) = Inr (js ''canada'')" "js ''canada'' \<noteq> []"
    and b: "safeStr_value (Str (js ''French  Republic'')) = Inr (js ''French  Republic'')"
      "js ''French  Republic'' \<noteq> []"
    and c: "safeStr_value (Str (js ''Turkey'')) = Inr (js ''Turkey'')" "js ''Turkey'' \<noteq> []"
    and u: "safeStr_value (Str (js ''usa'')) = Inr (js ''usa'')" "js ''usa'' \<noteq> []"
    by (simp_all add: string_eval)
  have oc: "el_options countries =
      [\<lparr>opt_value = js ''United States'', opt_textContent = js ''United States''\<rparr>]
      @ \<lparr>opt_value = js ''Canada'', opt_textContent = js ''Canada''\<rparr> # []"
    and d0: "el_dispatched countries = []" "el_dispatched republics = []"
    and orf: "el_options republics =
      [] @ \<lparr>opt_value = js ''FR'', opt_textContent = js ''French Republic''\<rparr>
      # [\<lparr>opt_value = js ''TR'', opt_textContent = js ''Republic of Turkey''\<rparr>]"
    and ort: "el_options republics =
      [\<lparr>opt_value = js ''FR'', opt_textContent = js ''French Republic''\<rparr>]
      @ \<lparr>opt_value = js ''TR'', opt_textContent = js ''Republic of Turkey''\<rparr> # []"
    by (simp_all add: countries_def republics_def bare_def)
  note ev = normalizeForCompare_def str_includes_def sublist_code(3) string_eval
  from setSelectValue_tiers [OF a, where pf = sample_platform and sel = countries,
      THEN conjunct1, rule_format, OF conjI [OF oc]]
  have 1: "setSelectValue sample_platform countries (Str (js '' canada ''))
     = (Inr (Selected (js ''value'') (js ''Canada'')),
        countries\<lparr>el_value := js ''Canada'', el_dispatched := [js ''change'']\<rparr>)"
    by (simp add: d0 ev)
  from setSelectValue_tiers [OF b, where pf = sample_platform and sel = republics,
      THEN conjunct2, THEN conjunct1, rule_format, of "[]" _ _]
  have 2: "setSelectValue sample_platform republics (Str (js ''French  Republic''))
     = (Inr (Selected (js ''text'') (js ''FR'')),
        republics\<lparr>el_value := js ''FR'', el_dispatched := [js ''change'']\<rparr>)"
    by (simp add: republics_def bare_def ev)
  from setSelectValue_tiers [OF c, where pf = sample_platform and sel = republics,
      THEN conjunct2, THEN conjunct2, THEN conjunct1, rule_format,
      of "[\<lparr>opt_value = js ''FR'', opt_textContent = js ''French Republic''\<rparr>]" _ "[]"]
  have 3: "setSelectValue sample_platform republics (Str (js ''Turkey''))
     = (Inr (Selected (js ''fuzzy'') (js ''TR'')),
        republics\<lparr>el_value := js ''TR'', el_dispatched := [js ''change'']\<rparr>)"
    by (simp add: republics_def bare_def ev)
  from setSelectValue_tiers [OF u, where pf = sample_platform and sel = countries,
      THEN conjunct2, THEN conjunct2, THEN conjunct2]
  have 4: "setSelectValue sample_platform countries (Str (js ''usa''))
     = (Inr (Failed (js ''no option match'')), countries)"
    by (simp add: countries_def bare_def ev)
  from 1 2 3 4 show ?thesis by simp
qed

text \<open>
  C10. With a desired value that is empty after \<open>safeStr\<close> (\<open>null\<close>, \<open>undefined\<close>, or a
  value whose string is empty or white space), a discrete selector gets the failure
  "empty desired value" and is left as it was, through \<open>setSelectValue\<close> and through
  \<open>setNativeValue\<close>. On any other element \<open>setNativeValue\<close> writes the empty string:
  where the setter of the platform stores it, the result carries the previous value and
  the empty string, the element holds what the setter stored and the two events are
  dispatched; where the setter throws, the result is the failure with its description
  and the element is left as it was. In particular, on an element whose setter stores
  the empty string as it is (a text input, a text area), the value of the element is
  the empty string afterwards.
\<close>

theorem empty_desired_value:
  assumes "safeStr_value v = Inr []"
  shows "setSelectValue pf el v = (Inr (Failed (js ''empty desired value'')), el)
    \<and> (tag_of pf el = js ''select'' \<longrightarrow>
          setNativeValue pf el v = (Inr (Failed (js ''empty desired value'')), el))
    \<and> (tag_of pf el \<noteq> js ''select'' \<longrightarrow>
          setNativeValue pf el v =
            (case pf_set_value pf el [] of
               Inl description \<Rightarrow> (Inr (Failed description), el)
             | Inr stored \<Rightarrow>
                 (Inr (Written (el_value el) []),
                  el\<lparr>el_value := stored,
                     el_dispatched := el_dispatched el @ [js ''input'', js ''change'']\<rparr>)))
    \<and> (tag_of pf el \<noteq> js ''select'' \<and> pf_set_value pf el [] = Inr [] \<longrightarrow>
          setNativeValue pf el v =
            (Inr (Written (el_value el) []),
             el\<lparr>el_value := [],
                el_dispatched := el_dispatched el @ [js ''input'', js ''change'']\<rparr>))"
  using assms
  by (simp add: setSelectValue_def setNativeValue_def setNativeValue_try_def write_value_def
      dispatchEvent_def truthy_def split: sum.splits)

theorem empty_desired_value_witness:
  "safeStr_value (Str (js ''   '')) = Inr []
   \<and> tag_of sample_platform countries = js ''select''
   \<and> setNativeValue sample_platform countries (Str (js ''   ''))
       = (Inr (Failed (js ''empty desired value'')), countries)
   \<and> el_value countries = js ''United States''
   \<and> tag_of sample_platform email_input \<noteq> js ''select''
   \<and> pf_set_value sample_platform email_input [] = Inr []
   \<and> setNativeValue sample_platform email_input (Str (js ''   ''))
       = (Inr (Written (js ''old'') []),
          email_input\<lparr>el_value := [], el_dispatched := [js ''input'', js ''change'']\<rparr>)
   \<and> el_value (snd (setNativeValue sample_platform email_input JsNull)) = []"
proof -
  have e: "safeStr_value (Str (js ''   '')) = Inr []" and n: "safeStr_value JsNull = Inr []"
    by (simp_all add: string_eval)
  have s: "tag_of sample_platform countries = js ''select''"
    by (simp add: countries_def element_eval string_eval)
  have t: "tag_of sample_platform email_input \<noteq> js ''select''"
    by (simp add: email_input_def element_eval string_eval)
  have v: "el_value countries = js ''United States''" "el_value email_input = js ''old''"
    "el_dispatched email_input = []"
    by (simp_all add: countries_def email_input_def bare_def)
  have st: "pf_set_value sample_platform email_input [] = Inr []"
    by (simp add: sample_platform_def)
  from empty_desired_value [OF e, of sample_platform countries]
    empty_desired_value [OF e, of sample_platform email_input]
    empty_desired_value [OF n, of sample_platform email_input]
  show ?thesis using e s t v st by simp
qed




section \<open>Properties of the signal extractor\<close>

lemmas geometry_eval = findNearestLabelText_def consider_label_def isAbove_def isLeft_def
  label_dist_def verticalDist_def horizontalDist_def

lemma candidates_from_labels:
  "c \<in> set (foldl (consider_label el) acc labels) \<Longrightarrow>
   c \<in> set acc \<or>
   (\<exists>l \<in> set labels. cand_text c = safeStr (l_innerText l) \<and> cand_text c \<noteq> []
      \<and> qualifies el l)"
proof (induction labels arbitrary: acc)
  case Nil
  then show ?case by simp
next
  case (Cons l ls)
  from Cons.prems have "c \<in> set (foldl (consider_label el) (consider_label el acc l) ls)"
    by simp
  from Cons.IH [OF this] show ?case
  proof
    assume "c \<in> set (consider_label el acc l)"
    then have "c \<in> set acc \<or> (cand_text c = safeStr (l_innerText l) \<and> cand_text c \<noteq> []
        \<and> qualifies el l)"
      by (auto simp: consider_label_def qualifies_def Let_def truthy_def split: if_splits)
    then show ?thesis by auto
  next
    assume "\<exists>l\<in>set ls. cand_text c = safeStr (l_innerText l) \<and> cand_text c \<noteq> []
        \<and> qualifies el l"
    then show ?thesis by auto
  qed
qed

lemma sort_key_head: "sort_key f xs = c # cs \<Longrightarrow> c \<in> set xs"
  by (metis list.set_intros(1) set_sort)

text \<open>
  C1, as stated, fails: a label whose bottom edge is 200 above the top edge of its
  input, and whose right edge is 40 from the left edge of the input, is returned by
  \<open>findNearestLabelText\<close> and becomes the near-label signal of the input. Its distance
  is the lesser of the two gaps, 40.
\<close>

theorem far_label_is_signal:
  "rect_top (el_rect far_label_input) - rect_bottom (l_rect far_label) = 200
   \<and> el_container far_label_input = Some [far_label]
   \<and> findNearestLabelText far_label_input = js ''Name''
   \<and> getElementTextSignals far_label_input
       = [\<lparr>sig_text = js ''Name'', sig_weight = 6, sig_source = ''near-label''\<rparr>]"
  by (simp add: far_label_input_def far_label_def element_eval geometry_eval string_eval
      getElementTextSignals_def add_def Let_def)

text \<open>
  C1, amended. A text returned by \<open>findNearestLabelText\<close> is the trimmed text of a
  label of the container that is above or to the left of the element (tolerance 8) and
  whose distance, the lesser of its vertical and its horizontal gap, is under 80. A
  label 200 above the element is therefore returned only when its horizontal gap is
  under 80.
\<close>

theorem findNearestLabelText_sound:
  assumes "findNearestLabelText el \<noteq> []"
  shows "\<exists>labels l. el_container el = Some labels \<and> l \<in> set labels
     \<and> safeStr (l_innerText l) = findNearestLabelText el
     \<and> (isAbove (l_rect l) (el_rect el) \<or> isLeft (l_rect l) (el_rect el))
     \<and> min (verticalDist (l_rect l) (el_rect el)) (horizontalDist (l_rect l) (el_rect el)) < 80
     \<and> (rect_top (el_rect el) - rect_bottom (l_rect l) = 200
          \<longrightarrow> horizontalDist (l_rect l) (el_rect el) < 80)"
proof -
  from assms obtain labels where c: "el_container el = Some labels"
    by (cases "el_container el") (auto simp: findNearestLabelText_def)
  let ?cands = "foldl (consider_label el) [] labels"
  from assms c obtain cand rest where s: "sort_key cand_dist ?cands = cand # rest"
    by (cases "sort_key cand_dist ?cands") (auto simp: findNearestLabelText_def)
  with c have r: "findNearestLabelText el = cand_text cand"
    by (simp add: findNearestLabelText_def)
  from s have "cand \<in> set ?cands" by (rule sort_key_head)
  from candidates_from_labels [OF this] obtain l where l: "l \<in> set labels"
    "cand_text cand = safeStr (l_innerText l)" "qualifies el l"
    by auto
  from l(3) have q: "isAbove (l_rect l) (el_rect el) \<or> isLeft (l_rect l) (el_rect el)"
    and d: "min (verticalDist (l_rect l) (el_rect el)) (horizontalDist (l_rect l) (el_rect el)) < 80"
    by (simp_all add: qualifies_def label_dist_def)
  have "horizontalDist (l_rect l) (el_rect el) < 80"
    if "rect_top (el_rect el) - rect_bottom (l_rect l) = 200"
    using d that by (simp add: verticalDist_def min_def split: if_splits)
  with c l(1,2) r q d show ?thesis by auto
qed

theorem findNearestLabelText_sound_witness:
  "findNearestLabelText near_label_input = js ''E-mail''
   \<and> isAbove (l_rect near_label) (el_rect near_label_input)
   \<and> label_dist (l_rect near_label) (el_rect near_label_input) = 10
   \<and> findNearestLabelText far_label_input = js ''Name''
   \<and> rect_top (el_rect far_label_input) - rect_bottom (l_rect far_label) = 200
   \<and> horizontalDist (l_rect far_label) (el_rect far_label_input) = 40"
proof -
  have n: "findNearestLabelText near_label_input = js ''E-mail''"
    and f: "findNearestLabelText far_label_input = js ''Name''"
    by (simp_all add: near_label_input_def near_label_def far_label_input_def far_label_def
        element_eval geometry_eval string_eval Let_def)
  have ne: "findNearestLabelText near_label_input \<noteq> []"
    and fe: "findNearestLabelText far_label_input \<noteq> []"
    by (simp_all add: n f js_def)
  from findNearestLabelText_sound [OF ne] findNearestLabelText_sound [OF fe]
  have "horizontalDist (l_rect far_label) (el_rect far_label_input) < 80"
    by (simp add: near_label_input_def near_label_def far_label_input_def far_label_def
        element_eval geometry_eval)
  then show ?thesis
    using n f
    by (simp add: near_label_input_def near_label_def far_label_input_def far_label_def
        element_eval geometry_eval)
qed

section \<open>Properties of the field scorer\<close>

lemmas tokenize_eval = tokenize_def is_stripped_def is_letter_or_number_def is_letter_def
  is_number_def is_high_surrogate_def is_low_surrogate_def is_separator_def STOP_WORDS_def
  Let_def

lemmas scorer_eval = scoreFieldType_def score_autocomplete_def score_input_type_def
  score_keywords_def score_signal_def signal_local_def score_patterns_def score_search_def
  getElementTextSignals_def add_def AUTOCOMPLETE_MAP_get_def AUTOCOMPLETE_MAP_def
  Object_prototype_properties_def ambiguousNameToken_def str_includes_def sublist_code(3)
  firstName_pattern_def lastName_pattern_def email_pattern_def phone_pattern_def
  postalCode_pattern_def contains_any_def sep_name_def ascii_lower_def

lemma tokenize_Name: "tokenize pf (js ''Name'') = [js ''name'']"
  by (simp add: tokenize_eval string_eval)

lemma synonymTokens_FullName: "synonymTokens pf FullName =
  [js ''full'', js ''name'', js ''name'', js ''your'', js ''name'', js ''ad'', js ''soyad'',
   js ''isim'', js ''soyisim'', js ''ad'' @ [305] @ js ''n'' @ [305] @ js ''z'',
   js ''soyad'' @ [305] @ js ''n'' @ [305] @ js ''z'', js ''adiniz'', js ''soyadiniz'']"
  by (simp add: synonymTokens_def tokenize_eval string_eval)

lemma synonymTokens_City: "synonymTokens pf City =
  [js ''city'', js ''town'', [351] @ js ''ehir'', js ''sehir'', js ''il'' @ [231] @ js ''e'',
   js ''ilce'', js ''il'']"
  by (simp add: synonymTokens_def tokenize_eval string_eval)

lemma synonymTokens_Email: "synonymTokens pf Email =
  [js ''email'', js ''e-mail'', js ''mail'', js ''eposta'', js ''e'', js ''posta'', js ''e-posta'']"
  by (simp add: synonymTokens_def tokenize_eval string_eval)

lemma signal_local_Name:
  "signal_local pf FullName [js ''name''] = 6" "signal_local pf City [js ''name''] = - 2"
  by (simp_all add: signal_local_def synonymTokens_FullName synonymTokens_City
      ambiguousNameToken_def js_def)

lemma score_signal_Name:
  "sig_text s = js ''Name'' \<Longrightarrow> score_signal pf FullName a s = a + 6 * sig_weight s"
  "sig_text s = js ''Name'' \<Longrightarrow> score_signal pf City a s = a - 2 * sig_weight s"
  by (simp_all add: score_signal_def tokenize_Name signal_local_Name)

lemma fold_Name_FullName:
  "list_all (\<lambda>s. sig_text s = js ''Name'') sigs \<Longrightarrow>
   foldl (score_signal pf FullName) a sigs = a + 6 * sum_list (map sig_weight sigs)"
  by (induction sigs arbitrary: a) (simp_all add: score_signal_Name algebra_simps)

lemma fold_Name_City:
  "list_all (\<lambda>s. sig_text s = js ''Name'') sigs \<Longrightarrow>
   foldl (score_signal pf City) a sigs = a - 2 * sum_list (map sig_weight sigs)"
proof (induction sigs arbitrary: a)
  case Nil
  then show ?case by simp
next
  case (Cons s sigs)
  then have t: "sig_text s = js ''Name''"
    and r: "list_all (\<lambda>s. sig_text s = js ''Name'') sigs"
    by simp_all
  have "foldl (score_signal pf City) a (s # sigs)
      = foldl (score_signal pf City) (a - 2 * sig_weight s) sigs"
    using t by (simp add: score_signal_Name)
  also have "\<dots> = a - 2 * sig_weight s - 2 * sum_list (map sig_weight sigs)"
    by (rule Cons.IH [OF r])
  also have "\<dots> = a - 2 * sum_list (map sig_weight (s # sigs))" by simp
  finally show ?case .
qed

lemma list_all_add:
  "list_all P (add s w src sigs) \<longleftrightarrow>
   list_all P sigs \<and> (truthy (safeStr s) \<longrightarrow> P \<lparr>sig_text = safeStr s, sig_weight = w, sig_source = src\<rparr>)"
  by (simp add: add_def Let_def)

lemma list_ex_add:
  "list_ex P (add s w src sigs) \<longleftrightarrow>
   list_ex P sigs \<or> (truthy (safeStr s) \<and> P \<lparr>sig_text = safeStr s, sig_weight = w, sig_source = src\<rparr>)"
  by (auto simp: add_def Let_def)

lemma signal_weights_positive: "list_all (\<lambda>s. 0 < sig_weight s) (getElementTextSignals el)"
  by (simp add: getElementTextSignals_def Let_def list_all_add)

lemma autocomplete_is_signal:
  "truthy (safeStr (getAttribute el ''autocomplete'')) \<Longrightarrow>
   list_ex (\<lambda>x. sig_text x = safeStr (getAttribute el ''autocomplete'')) (getElementTextSignals el)"
  by (simp add: getElementTextSignals_def Let_def list_ex_add)

lemma positive_sum:
  assumes "sigs \<noteq> []" and "list_all (\<lambda>s. 0 < sig_weight s) sigs"
  shows "0 < sum_list (map sig_weight sigs)"
proof -
  from assms(1) obtain x xs where sigs: "sigs = x # xs" by (cases sigs) auto
  with assms(2) have "0 < sig_weight x" and "\<forall>w \<in> set (map sig_weight xs). 0 \<le> w"
    by (auto simp: list_all_iff less_imp_le)
  then have "0 < sig_weight x + sum_list (map sig_weight xs)"
    by (intro add_pos_nonneg sum_list_nonneg) auto
  then show ?thesis by (simp add: sigs)
qed

lemma score_input_type_names:
  "score_input_type pf el FullName a = a" "score_input_type pf el City a = a"
  by (simp_all add: score_input_type_def Let_def)

lemma score_patterns_names:
  "score_patterns pf el FullName a = a" "score_patterns pf el City a = a"
  by (simp_all add: score_patterns_def Let_def)

lemma score_search_mono: "a < b \<Longrightarrow> score_search pf el a < score_search pf el b"
  by (simp add: score_search_def Let_def)

lemma AUTOCOMPLETE_MAP_name: "AUTOCOMPLETE_MAP_get (js ''name'') = Mapped FullName"
  by (simp add: AUTOCOMPLETE_MAP_get_def AUTOCOMPLETE_MAP_def js_def)

lemma toLowerCase_Name: "toLowerCase pf (js ''Name'') = js ''name''"
  by (simp add: string_eval)

lemma score_autocomplete_Name:
  assumes "list_all (\<lambda>s. sig_text s = js ''Name'') (getElementTextSignals el)"
  shows "score_autocomplete pf el City 0 \<le> score_autocomplete pf el FullName 0"
proof (cases "truthy (safeStr (getAttribute el ''autocomplete''))")
  case False
  then show ?thesis by (simp add: score_autocomplete_def truthy_def toLowerCase_def latin_lower_def)
next
  case True
  from autocomplete_is_signal [OF True] assms
  have "safeStr (getAttribute el ''autocomplete'') = js ''Name''"
    by (auto simp: list_all_iff list_ex_iff)
  then show ?thesis
    by (simp add: score_autocomplete_def toLowerCase_Name AUTOCOMPLETE_MAP_name Let_def)
qed

lemma signal_local_ambiguous:
  assumes "list_ex ambiguousNameToken tokens"
  shows "signal_local pf fieldType tokens =
     3 * int (length (filter (\<lambda>tok. tok \<in> set (synonymTokens pf fieldType)) tokens))
     + (if fieldType = FullName then 3
        else if fieldType = FirstName \<or> fieldType = LastName then 0 else - 2)"
proof -
  have "foldl (\<lambda>local tok. if tok \<in> set (synonymTokens pf fieldType) then local + 3 else local) a tokens
      = a + 3 * int (length (filter (\<lambda>tok. tok \<in> set (synonymTokens pf fieldType)) tokens))" for a
    by (induction tokens arbitrary: a) simp_all
  then show ?thesis using assms by (simp add: signal_local_def Let_def)
qed

lemma score_autocomplete_cases:
  assumes "toLowerCase pf (safeStr (getAttribute el ''autocomplete'')) = ac" and "ac \<noteq> []"
  shows "score_autocomplete pf el fieldType score =
     (case map_of AUTOCOMPLETE_MAP ac of
        Some ft \<Rightarrow> if ft = fieldType then score + 30 else score - 8
      | None \<Rightarrow> if ac \<in> set Object_prototype_properties then score - 8 else score)"
  using assms
  by (simp add: score_autocomplete_def AUTOCOMPLETE_MAP_get_def truthy_def Let_def
      split: option.splits)

text \<open>
  C6. An element all of whose signals (at least one) read "Name" scores strictly higher
  for \<open>FullName\<close> than for \<open>City\<close>. In every signal that holds the token "name" or
  "isim", the local score is three per synonym token, plus 3 for \<open>FullName\<close>, minus 2
  for every field type other than \<open>FirstName\<close>, \<open>LastName\<close> and \<open>FullName\<close>.
\<close>

theorem name_label_prefers_fullName:
  assumes "getElementTextSignals el \<noteq> []"
    and "\<forall>s \<in> set (getElementTextSignals el). sig_text s = js ''Name''"
  shows "scoreFieldType pf el City < scoreFieldType pf el FullName
    \<and> (\<forall>fieldType tokens. list_ex ambiguousNameToken tokens \<longrightarrow>
          signal_local pf fieldType tokens =
            3 * int (length (filter (\<lambda>tok. tok \<in> set (synonymTokens pf fieldType)) tokens))
            + (if fieldType = FullName then 3
               else if fieldType = FirstName \<or> fieldType = LastName then 0 else - 2))"
proof -
  let ?sigs = "getElementTextSignals el"
  let ?w = "sum_list (map sig_weight ?sigs)"
  from assms(2) have all: "list_all (\<lambda>s. sig_text s = js ''Name'') ?sigs"
    by (simp add: list_all_iff)
  have w: "0 < ?w" using assms(1) signal_weights_positive by (rule positive_sum)
  have ac: "score_autocomplete pf el City 0 \<le> score_autocomplete pf el FullName 0"
    using all by (rule score_autocomplete_Name)
  have full: "scoreFieldType pf el FullName
      = score_search pf el (score_autocomplete pf el FullName 0 + 6 * ?w)"
    by (simp add: scoreFieldType_def Let_def score_input_type_names score_patterns_names
        score_keywords_def fold_Name_FullName [OF all])
  have city: "scoreFieldType pf el City
      = score_search pf el (score_autocomplete pf el City 0 - 2 * ?w)"
    by (simp add: scoreFieldType_def Let_def score_input_type_names score_patterns_names
        score_keywords_def fold_Name_City [OF all])
  have "score_autocomplete pf el City 0 - 2 * ?w < score_autocomplete pf el FullName 0 + 6 * ?w"
    using w ac by linarith
  then have "scoreFieldType pf el City < scoreFieldType pf el FullName"
    unfolding full city by (rule score_search_mono)
  then show ?thesis by (simp add: signal_local_ambiguous)
qed

theorem name_label_prefers_fullName_witness:
  "getElementTextSignals name_labelled
     = [\<lparr>sig_text = js ''Name'', sig_weight = 9, sig_source = ''label-wrap''\<rparr>]
   \<and> scoreFieldType sample_platform name_labelled FullName = 54
   \<and> scoreFieldType sample_platform name_labelled City = - 18"
proof -
  have s: "getElementTextSignals name_labelled
     = [\<lparr>sig_text = js ''Name'', sig_weight = 9, sig_source = ''label-wrap''\<rparr>]"
    by (simp add: name_labelled_def element_eval getElementTextSignals_def add_def
        findNearestLabelText_def string_eval Let_def)
  have ac: "score_autocomplete sample_platform name_labelled ft 0 = 0" for ft
    by (simp add: score_autocomplete_def name_labelled_def element_eval string_eval)
  have se: "score_search sample_platform name_labelled a = a" for a
    by (simp add: score_search_def name_labelled_def element_eval str_includes_def
        string_eval)
  have f: "scoreFieldType sample_platform name_labelled FullName = 54"
    by (simp add: scoreFieldType_def ac se score_input_type_names score_patterns_names
        score_keywords_def s score_signal_Name)
  have c: "scoreFieldType sample_platform name_labelled City = - 18"
    by (simp add: scoreFieldType_def ac se score_input_type_names score_patterns_names
        score_keywords_def s score_signal_Name)
  from name_label_prefers_fullName [where el = name_labelled and pf = sample_platform] s f c show ?thesis by simp
qed

text \<open>
  C5: the autocomplete value "constructor" is not a key of the mapping table, and the
  autocomplete block still subtracts 8, because the lookup finds the member
  \<open>constructor\<close> that the table inherits from \<open>Object.prototype\<close>. The input with this
  attribute scores \<open>-8\<close> for \<open>Email\<close> overall.
\<close>

theorem unmapped_autocomplete_penalized:
  "toLowerCase pf (safeStr (getAttribute constructor_input ''autocomplete'')) = js ''constructor''
   \<and> map_of AUTOCOMPLETE_MAP (js ''constructor'') = None
   \<and> score_autocomplete pf constructor_input Email 0 = - 8
   \<and> scoreFieldType pf constructor_input Email = - 8"
  by (simp add: constructor_input_def element_eval scorer_eval geometry_eval
      synonymTokens_Email tokenize_eval string_eval)

end
